theory Spec2Isabelle
  imports Complex_Main
begin

section \<open>Python values, exceptions and the environment\<close>

text \<open>
  The development embeds the file-ingestion pipeline of the campus guide backend:
  \<^verbatim>\<open>app/__init__.py\<close> (the MIME sets), \<^verbatim>\<open>app/utility/file_services.py\<close>
  (class \<^verbatim>\<open>FileHandler\<close>), \<^verbatim>\<open>app/utility/db_services.py\<close> (class \<^verbatim>\<open>CRUDService\<close>)
  and the upload route of \<^verbatim>\<open>app/routers/files.py\<close>.

  Bytes and text are both character lists (an Isabelle character is one byte).
\<close>

type_synonym bytes = string

text \<open>
  Values that \<^verbatim>\<open>json.loads\<close> returns and \<^verbatim>\<open>json.dumps\<close> accepts. \<open>JSpecial\<close>
  holds the floats \<^verbatim>\<open>NaN\<close>, \<^verbatim>\<open>Infinity\<close> and \<^verbatim>\<open>-Infinity\<close>, which both functions
  accept and which are all true.
\<close>

datatype json =
    JNull
  | JBool bool
  | JNum real
  | JSpecial string
  | JStr string
  | JArr "json list"
  | JObj "(string \<times> json) list"

text \<open>Python truth value (\<^verbatim>\<open>not x\<close> is its negation).\<close>

fun truthy :: "json \<Rightarrow> bool" where
  "truthy JNull = False"
| "truthy (JBool b) = b"
| "truthy (JNum r) = (r \<noteq> 0)"
| "truthy (JSpecial s) = True"
| "truthy (JStr s) = (s \<noteq> [])"
| "truthy (JArr xs) = (xs \<noteq> [])"
| "truthy (JObj kvs) = (kvs \<noteq> [])"

text \<open>\<^verbatim>\<open>isinstance(x, dict)\<close> and \<^verbatim>\<open>'type' in x\<close>.\<close>

fun is_dict :: "json \<Rightarrow> bool" where
  "is_dict (JObj kvs) = True"
| "is_dict _ = False"

fun has_key :: "string \<Rightarrow> json \<Rightarrow> bool" where
  "has_key k (JObj kvs) = (k \<in> set (map fst kvs))"
| "has_key k _ = False"

text \<open>
  The exception classes that the handlers of the source tell apart. A handler
  \<^verbatim>\<open>except ValueError\<close> also catches \<^verbatim>\<open>json.JSONDecodeError\<close> and
  \<^verbatim>\<open>UnicodeDecodeError\<close>, which are subclasses of \<^verbatim>\<open>ValueError\<close>; a handler
  \<^verbatim>\<open>except OSError\<close> also catches \<^verbatim>\<open>FileNotFoundError\<close>.
\<close>

datatype exc_class =
    ValueError
  | JSONDecodeError
  | UnicodeDecodeError
  | OSError
  | FileNotFoundError
  | ExpatError
  | IndexError
  | AttributeError
  | IntegrityError
  | RecursionError
  | OtherError

fun is_ValueError :: "exc_class \<Rightarrow> bool" where
  "is_ValueError ValueError = True"
| "is_ValueError JSONDecodeError = True"
| "is_ValueError UnicodeDecodeError = True"
| "is_ValueError _ = False"

fun is_OSError :: "exc_class \<Rightarrow> bool" where
  "is_OSError OSError = True"
| "is_OSError FileNotFoundError = True"
| "is_OSError _ = False"

text \<open>A raised Python exception: its class and \<^verbatim>\<open>str(e)\<close>.\<close>

datatype pyexc = PyExc (cls: exc_class) (msg: string)

text \<open>
  What a function of the service raises: FastAPI's \<^verbatim>\<open>HTTPException(status_code, detail)\<close>
  or any other exception, which no handler of the service turned into one.
\<close>

datatype exn = HTTPException nat string | Raised pyexc

subsection \<open>MIME sets (\<^verbatim>\<open>app/__init__.py\<close>)\<close>

definition ALLOWED_MIME_TYPES :: "string set" where
  "ALLOWED_MIME_TYPES =
     {''image/png'', ''image/jpeg'', ''image/jpg'', ''image/gif'', ''image/webp'',
      ''application/geo+json'', ''application/vnd.google-earth.kml+xml'',
      ''application/json'', ''application/octet-stream''}"

definition GEO_MIME_TYPES :: "string set" where
  "GEO_MIME_TYPES =
     {''application/vnd.google-earth.kml+xml'', ''application/octet-stream'',
      ''application/json'', ''application/geo+json''}"

subsection \<open>Paths (\<^verbatim>\<open>pathlib\<close>)\<close>

text \<open>
  A path of a file is its directory and its final component. The service only builds
  paths as \<^verbatim>\<open>directory / name\<close> and reads \<^verbatim>\<open>.parent\<close>, \<^verbatim>\<open>.name\<close> and
  \<^verbatim>\<open>.suffix\<close> back.
\<close>

datatype path = Path (parent: string) (name: string)

definition GEO_JSON_DIR :: string where
  "GEO_JSON_DIR = ''app/static/geo_jsons''"

definition IMAGE_DIR :: string where
  "IMAGE_DIR = ''app/static/images''"

text \<open>\<^verbatim>\<open>str.rfind\<close> of one character: the last index where it occurs.\<close>

fun rfind :: "char \<Rightarrow> string \<Rightarrow> nat option" where
  "rfind c [] = None"
| "rfind c (x # xs) =
     (case rfind c xs of
        Some i \<Rightarrow> Some (Suc i)
      | None \<Rightarrow> if x = c then Some 0 else None)"

text \<open>
  \<^verbatim>\<open>PurePath.suffix\<close> on the final component (Python up to 3.13):
  \<^verbatim>\<open>i = name.rfind('.')\<close>; the suffix is \<^verbatim>\<open>name[i:]\<close> if \<^verbatim>\<open>0 < i < len(name) - 1\<close>
  and the empty string otherwise.
\<close>

definition name_suffix :: "string \<Rightarrow> string" where
  "name_suffix n =
     (case rfind (CHR ''.'') n of
        None \<Rightarrow> []
      | Some i \<Rightarrow> if 0 < i \<and> Suc i < length n then drop i n else [])"

text \<open>
  The final component of \<^verbatim>\<open>Path(s)\<close> for a string \<^verbatim>\<open>s\<close>: the string is cut at
  every \<^verbatim>\<open>/\<close>, empty pieces and \<^verbatim>\<open>.\<close> pieces are dropped, and the last piece that
  is left is the name (the empty string when none is left).
\<close>

fun split_on :: "char \<Rightarrow> string \<Rightarrow> string list" where
  "split_on c [] = [[]]"
| "split_on c (x # xs) =
     (if x = c then [] # split_on c xs
      else (case split_on c xs of
              [] \<Rightarrow> [[x]]
            | p # ps \<Rightarrow> (x # p) # ps))"

definition path_name :: "string \<Rightarrow> string" where
  "path_name s =
     (let parts = filter (\<lambda>p. p \<noteq> [] \<and> p \<noteq> ''.'') (split_on (CHR ''/'') s)
      in if parts = [] then [] else last parts)"

text \<open>\<^verbatim>\<open>Path(s).suffix\<close> for a string \<^verbatim>\<open>s\<close>.\<close>

definition suffix :: "string \<Rightarrow> string" where
  "suffix s = name_suffix (path_name s)"

text \<open>
  \<^verbatim>\<open>p.with_suffix(s)\<close>: the old suffix of the name, if any, is replaced. (The name is
  never empty where the service calls it.)
\<close>

definition with_suffix :: "path \<Rightarrow> string \<Rightarrow> path" where
  "with_suffix p s =
     (let n = name p; old = name_suffix n
      in Path (parent p) (take (length n - length old) n @ s))"

text \<open>
  Text is kept as its UTF-8 bytes. The searches for \<^verbatim>\<open>.\<close> and \<^verbatim>\<open>/\<close> and the
  tests \<^verbatim>\<open>0 < i < len(name) - 1\<close> above answer on the bytes what they answer on the
  code points.

  \<^verbatim>\<open>str.lower\<close>: the letters \<^verbatim>\<open>A\<close> to \<^verbatim>\<open>Z\<close> become \<^verbatim>\<open>a\<close> to \<^verbatim>\<open>z\<close>, and
  the KELVIN SIGN U+212A (the bytes \<open>0xE2 0x84 0xAA\<close>) becomes \<^verbatim>\<open>k\<close>. These are the
  only code points that \<^verbatim>\<open>str.lower\<close> turns into ASCII text: the lower case of every
  other code point outside ASCII holds a code point outside ASCII (U+0130 gives \<^verbatim>\<open>i\<close>
  followed by U+0307). Such code points are kept here as they are, so the result equals
  an ASCII string exactly when the result of \<^verbatim>\<open>str.lower\<close> does.
\<close>

definition lower_char :: "char \<Rightarrow> char" where
  "lower_char c =
     (case map_of (zip ''ABCDEFGHIJKLMNOPQRSTUVWXYZ'' ''abcdefghijklmnopqrstuvwxyz'') c of
        Some d \<Rightarrow> d
      | None \<Rightarrow> c)"

fun lower :: "string \<Rightarrow> string" where
  "lower [] = []"
| "lower (c1 # c2 # c3 # cs) =
     (if c1 = CHR 0xE2 \<and> c2 = CHR 0x84 \<and> c3 = CHR 0xAA then CHR ''k'' # lower cs
      else lower_char c1 # lower (c2 # c3 # cs))"
| "lower (c # cs) = lower_char c # lower cs"

subsection \<open>The environment: libraries and storage faults\<close>

text \<open>
  The result of \<^verbatim>\<open>kml2geojson.main.convert\<close>: a list of layers, or a tuple (a style
  dictionary followed by the layers). The service reads \<^verbatim>\<open>result[0]\<close> of a list and
  \<^verbatim>\<open>result[1]\<close> of anything else.
\<close>

datatype pyresult = PyList "json list" | PyTuple "json list"

text \<open>The storage and database calls that may raise.\<close>

datatype io_op =
    Makedirs string
  | OpenWrite path
  | Write path nat
  | OpenRead path
  | Remove path
  | Move path path
  | DbCommit

text \<open>
  Everything that the service takes from outside: the values of \<^verbatim>\<open>uuid.uuid4()\<close> in
  the order of the calls, the KML converter as a function of the content of the file it
  reads (\<open>Inl\<close>: the exception it raises), \<^verbatim>\<open>json.dumps\<close>, \<^verbatim>\<open>json.loads\<close>
  (\<open>Inl\<close>: the exception it raises, \<^verbatim>\<open>JSONDecodeError\<close> on a text that is not JSON,
  but also \<^verbatim>\<open>RecursionError\<close> on deep nesting or \<^verbatim>\<open>ValueError\<close> on an integer
  with too many digits), the UTF-8 decoder of a file opened in text mode (\<open>Inl m\<close>:
  \<^verbatim>\<open>UnicodeDecodeError\<close> with message \<open>m\<close>), and the faults of the storage:
  \<open>fails op = Some e\<close> when the call \<open>op\<close> raises \<open>e\<close>. For \<open>Write p k\<close> the
  number \<open>k\<close> is the count of bytes already in the file; \<open>OpenRead p\<close> stands for
  opening \<open>p\<close> and reading it.
\<close>

record env =
  uuid4 :: "nat \<Rightarrow> string"
  convert :: "bytes \<Rightarrow> pyexc + pyresult"
  dumps :: "json \<Rightarrow> string"
  loads :: "string \<Rightarrow> pyexc + json"
  decode_utf8 :: "bytes \<Rightarrow> string + string"
  fails :: "io_op \<Rightarrow> pyexc option"

subsection \<open>The state: files on disk and database tables\<close>

text \<open>
  A row of \<^verbatim>\<open>geofiles\<close> or \<^verbatim>\<open>imagefiles\<close> (\<^verbatim>\<open>app/models.py\<close>) with the columns
  that \<^verbatim>\<open>create_file\<close> sets; the columns filled by defaults (id, timestamps) are left
  out. The path column holds \<^verbatim>\<open>str(file_path)\<close>, kept here as the path itself.
\<close>

record file_row =
  row_name :: string
  row_content_type :: string
  row_path :: path
  institution_id :: string
  row_size :: nat
  row_url :: string

text \<open>
  The files on disk with their content, the two file tables, the ids of the rows of
  \<^verbatim>\<open>institutions\<close>, and the number of UUIDs drawn so far.
\<close>

record world =
  files :: "path \<Rightarrow> bytes option"
  geofiles :: "file_row list"
  imagefiles :: "file_row list"
  institutions :: "string list"
  uuid_ctr :: nat

text \<open>The upload: \<^verbatim>\<open>UploadFile.filename\<close>, \<^verbatim>\<open>.content_type\<close> and the bytes it yields.\<close>

record upload =
  filename :: string
  content_type :: string
  content :: bytes

subsection \<open>Storage primitives\<close>

definition next_uuid :: "env \<Rightarrow> world \<Rightarrow> string \<times> world" where
  "next_uuid E w = (uuid4 E (uuid_ctr w), w\<lparr>uuid_ctr := Suc (uuid_ctr w)\<rparr>)"

text \<open>\<^verbatim>\<open>makedirs(d, exist_ok=True)\<close>: directories are not tracked, only its failure is.\<close>

definition os_makedirs :: "env \<Rightarrow> string \<Rightarrow> pyexc + unit" where
  "os_makedirs E d = (case fails E (Makedirs d) of Some e \<Rightarrow> Inl e | None \<Rightarrow> Inr ())"

definition os_path_exists :: "world \<Rightarrow> path \<Rightarrow> bool" where
  "os_path_exists w p = (files w p \<noteq> None)"

text \<open>Opening for writing creates the file or truncates it.\<close>

definition open_write :: "env \<Rightarrow> path \<Rightarrow> world \<Rightarrow> (pyexc + unit) \<times> world" where
  "open_write E p w =
     (case fails E (OpenWrite p) of
        Some e \<Rightarrow> (Inl e, w)
      | None \<Rightarrow> (Inr (), w\<lparr>files := (files w)(p \<mapsto> [])\<rparr>))"

text \<open>One \<^verbatim>\<open>write\<close> call on the open file appends its data, or raises and writes nothing.\<close>

definition file_write :: "env \<Rightarrow> path \<Rightarrow> bytes \<Rightarrow> world \<Rightarrow> (pyexc + unit) \<times> world" where
  "file_write E p data w =
     (let old = (case files w p of None \<Rightarrow> [] | Some c \<Rightarrow> c)
      in case fails E (Write p (length old)) of
           Some e \<Rightarrow> (Inl e, w)
         | None \<Rightarrow> (Inr (), w\<lparr>files := (files w)(p \<mapsto> old @ data)\<rparr>))"

text \<open>\<^verbatim>\<open>async with aiofiles.open(p, "w") as f: await f.write(data)\<close>\<close>

definition write_file :: "env \<Rightarrow> path \<Rightarrow> bytes \<Rightarrow> world \<Rightarrow> (pyexc + unit) \<times> world" where
  "write_file E p data w =
     (case open_write E p w of
        (Inl e, w1) \<Rightarrow> (Inl e, w1)
      | (Inr u, w1) \<Rightarrow> file_write E p data w1)"

definition os_remove :: "env \<Rightarrow> path \<Rightarrow> world \<Rightarrow> (pyexc + unit) \<times> world" where
  "os_remove E p w =
     (case fails E (Remove p) of
        Some e \<Rightarrow> (Inl e, w)
      | None \<Rightarrow>
          if files w p = None then (Inl (PyExc FileNotFoundError ''No such file or directory''), w)
          else (Inr (), w\<lparr>files := (files w)(p := None)\<rparr>))"

text \<open>
  \<^verbatim>\<open>shutil.move(src, dst)\<close> inside one directory: \<^verbatim>\<open>os.rename\<close>, which replaces the
  destination in one step.
\<close>

definition shutil_move :: "env \<Rightarrow> path \<Rightarrow> path \<Rightarrow> world \<Rightarrow> (pyexc + unit) \<times> world" where
  "shutil_move E src dst w =
     (case fails E (Move src dst) of
        Some e \<Rightarrow> (Inl e, w)
      | None \<Rightarrow>
          (case files w src of
             None \<Rightarrow> (Inl (PyExc FileNotFoundError ''No such file or directory''), w)
           | Some c \<Rightarrow> (Inr (), w\<lparr>files := ((files w)(src := None))(dst \<mapsto> c)\<rparr>)))"

text \<open>
  The cleanup that the source writes twice:
  \<^verbatim>\<open>if p and await exists(p): try: await remove(p) except Exception: log\<close>.
\<close>

definition try_remove :: "env \<Rightarrow> path \<Rightarrow> world \<Rightarrow> world" where
  "try_remove E p w = (if os_path_exists w p then snd (os_remove E p w) else w)"

section \<open>\<^verbatim>\<open>FileHandler\<close> (\<^verbatim>\<open>app/utility/file_services.py\<close>)\<close>

subsection \<open>\<^verbatim>\<open>convert_and_save_kml_to_geojson\<close>\<close>

text \<open>\<^verbatim>\<open>kml2geojson.main.convert(str(input_filepath))\<close> reads the file at the path.\<close>

definition kml2geojson_convert :: "env \<Rightarrow> path \<Rightarrow> world \<Rightarrow> pyexc + pyresult" where
  "kml2geojson_convert E p w =
     (case files w p of
        None \<Rightarrow> Inl (PyExc FileNotFoundError ''No such file or directory'')
      | Some c \<Rightarrow> convert E c)"

text \<open>\<^verbatim>\<open>result[0] if isinstance(result, list) else result[1]\<close>\<close>

fun subscript_result :: "pyresult \<Rightarrow> pyexc + json" where
  "subscript_result (PyList []) = Inl (PyExc IndexError ''list index out of range'')"
| "subscript_result (PyList (x # xs)) = Inr x"
| "subscript_result (PyTuple (x # y # ys)) = Inr y"
| "subscript_result (PyTuple xs) = Inl (PyExc IndexError ''tuple index out of range'')"

text \<open>The body of the outer \<^verbatim>\<open>try\<close>; its \<^verbatim>\<open>except Exception\<close> logs and re-raises.\<close>

definition convert_and_save_try ::
  "env \<Rightarrow> path \<Rightarrow> path \<Rightarrow> world \<Rightarrow> (pyexc + unit) \<times> world" where
  "convert_and_save_try E input_filepath output_filepath w =
     (case os_makedirs E (parent output_filepath) of
        Inl e \<Rightarrow> (Inl e, w)
      | Inr u \<Rightarrow>
          (case kml2geojson_convert E input_filepath w of
             Inl e \<Rightarrow>
               (if cls e = ExpatError
                then (Inl (PyExc ValueError ''Invalid KML structure or encoding''), w)
                else (Inl (PyExc ValueError ''KML to GeoJSON conversion failed''), w))
           | Inr result \<Rightarrow>
               (case subscript_result result of
                  Inl e \<Rightarrow> (Inl e, w)
                | Inr geojson_dict \<Rightarrow>
                    if \<not> truthy geojson_dict
                    then (Inl (PyExc ValueError ''Invalid KML structure or encoding''), w)
                    else
                      (case write_file E output_filepath (dumps E geojson_dict) w of
                         (Inl e, w1) \<Rightarrow> (Inl e, w1)
                       | (Inr u1, w1) \<Rightarrow>
                           if \<not> os_path_exists w1 output_filepath
                           then (Inl (PyExc ValueError
                                   ''KML to GeoJSON conversion failed, file not created''), w1)
                           else (Inr (), w1)))))"

text \<open>The \<^verbatim>\<open>finally\<close> clause removes the input file, whatever the body did.\<close>

definition convert_and_save_kml_to_geojson ::
  "env \<Rightarrow> path \<Rightarrow> path \<Rightarrow> world \<Rightarrow> (pyexc + unit) \<times> world" where
  "convert_and_save_kml_to_geojson E input_filepath output_filepath w =
     (case convert_and_save_try E input_filepath output_filepath w of
        (r, w1) \<Rightarrow> (r, try_remove E input_filepath w1))"

subsection \<open>\<^verbatim>\<open>_get_upload_path\<close> and \<^verbatim>\<open>save_file\<close>\<close>

definition get_upload_path :: "env \<Rightarrow> upload \<Rightarrow> world \<Rightarrow> (exn + path) \<times> world" where
  "get_upload_path E uploaded_file w =
     (let file_extension = suffix (filename uploaded_file)
      in if file_extension = [] then (Inl (HTTPException 400 ''File has no extension''), w)
         else
           (case next_uuid E w of
              (u, w1) \<Rightarrow>
                (let new_filename = u @ file_extension;
                     upload_dir = (if content_type uploaded_file \<in> GEO_MIME_TYPES
                                   then GEO_JSON_DIR else IMAGE_DIR)
                 in case os_makedirs E upload_dir of
                      Inl e \<Rightarrow> (Inl (Raised e), w1)
                    | Inr u1 \<Rightarrow> (Inr (Path upload_dir new_filename), w1))))"

text \<open>The body of the \<^verbatim>\<open>try\<close> of \<^verbatim>\<open>save_file\<close>.\<close>

definition save_file_try :: "env \<Rightarrow> upload \<Rightarrow> world \<Rightarrow> (exn + path) \<times> world" where
  "save_file_try E uploaded_file w =
     (case get_upload_path E uploaded_file w of
        (Inl e, w1) \<Rightarrow> (Inl e, w1)
      | (Inr file_path_obj, w1) \<Rightarrow>
          if content uploaded_file = []
          then (Inl (HTTPException 400 ''Empty file uploaded''), w1)
          else
            (case write_file E file_path_obj (content uploaded_file) w1 of
               (Inl e, w2) \<Rightarrow> (Inl (Raised e), w2)
             | (Inr u, w2) \<Rightarrow>
                 if lower (suffix (filename uploaded_file)) = ''.kml''
                 then
                   (let output_filepath = with_suffix file_path_obj ''.geojson''
                    in case convert_and_save_kml_to_geojson E file_path_obj output_filepath w2 of
                         (Inl e, w3) \<Rightarrow> (Inl (Raised e), w3)
                       | (Inr u1, w3) \<Rightarrow> (Inr output_filepath, w3))
                 else (Inr file_path_obj, w2)))"

text \<open>
  The handlers of \<^verbatim>\<open>save_file\<close>, in the order of the source: \<^verbatim>\<open>HTTPException\<close> is
  re-raised, \<^verbatim>\<open>ValueError\<close> becomes 400, \<^verbatim>\<open>OSError\<close> becomes 500, anything else
  becomes the generic 500.
\<close>

fun save_file_except :: "exn \<Rightarrow> exn" where
  "save_file_except (HTTPException status detail) = HTTPException status detail"
| "save_file_except (Raised (PyExc c m)) =
     (if is_ValueError c then HTTPException 400 (''Error processing KML file: '' @ m)
      else if is_OSError c then HTTPException 500 (''Could not save file on server: '' @ m)
      else HTTPException 500 ''An internal error occurred during file saving.'')"

definition save_file :: "env \<Rightarrow> upload \<Rightarrow> world \<Rightarrow> (exn + path) \<times> world" where
  "save_file E uploaded_file w =
     (case save_file_try E uploaded_file w of
        (Inl e, w1) \<Rightarrow> (Inl (save_file_except e), w1)
      | (Inr p, w1) \<Rightarrow> (Inr p, w1))"

subsection \<open>\<^verbatim>\<open>load_geojson_content\<close>, \<^verbatim>\<open>delete_file\<close>\<close>

text \<open>Opening the file in text mode with \<^verbatim>\<open>encoding="utf-8"\<close> and reading all of it.\<close>

definition read_text :: "env \<Rightarrow> path \<Rightarrow> world \<Rightarrow> pyexc + string" where
  "read_text E p w =
     (case fails E (OpenRead p) of
        Some e \<Rightarrow> Inl e
      | None \<Rightarrow>
          (case files w p of
             None \<Rightarrow> Inl (PyExc FileNotFoundError ''No such file or directory'')
           | Some c \<Rightarrow>
               (case decode_utf8 E c of
                  Inl m \<Rightarrow> Inl (PyExc UnicodeDecodeError m)
                | Inr s \<Rightarrow> Inr s)))"

definition load_geojson_try :: "env \<Rightarrow> path \<Rightarrow> world \<Rightarrow> pyexc + json" where
  "load_geojson_try E file_path w =
     (case read_text E file_path w of
        Inl e \<Rightarrow> Inl e
      | Inr content_string \<Rightarrow>
          (case loads E content_string of
             Inl e \<Rightarrow> Inl e
           | Inr parsed_data \<Rightarrow>
               if \<not> is_dict parsed_data \<or> \<not> has_key ''type'' parsed_data
               then Inl (PyExc ValueError
                      ''Invalid GeoJSON structure: Missing 'type' key or not a dictionary.'')
               else Inr parsed_data))"

text \<open>The handlers of \<^verbatim>\<open>load_geojson_content\<close>, in the order of the source.\<close>

fun load_geojson_except :: "pyexc \<Rightarrow> exn" where
  "load_geojson_except (PyExc c m) =
     (if c = FileNotFoundError then HTTPException 404 ''GeoJSON file not found''
      else if c = JSONDecodeError then HTTPException 400 ''Could not parse GeoJSON file content''
      else if is_ValueError c then HTTPException 400 m
      else HTTPException 500 (''Error loading GeoJSON file: '' @ m))"

definition load_geojson_content :: "env \<Rightarrow> path \<Rightarrow> world \<Rightarrow> exn + json" where
  "load_geojson_content E file_path w =
     (if \<not> os_path_exists w file_path then Inl (HTTPException 404 ''GeoJSON file not found'')
      else
        (case load_geojson_try E file_path w of
           Inl e \<Rightarrow> Inl (load_geojson_except e)
         | Inr parsed_data \<Rightarrow> Inr parsed_data))"

definition delete_file :: "env \<Rightarrow> path \<Rightarrow> world \<Rightarrow> (exn + unit) \<times> world" where
  "delete_file E file_path w =
     (if os_path_exists w file_path
      then
        (case os_remove E file_path w of
           (Inl e, w1) \<Rightarrow> (Inl (HTTPException 500 (''Failed to delete file: '' @ msg e)), w1)
         | (Inr u, w1) \<Rightarrow> (Inr (), w1))
      else (Inr (), w))"

subsection \<open>\<^verbatim>\<open>overwrite_file\<close>\<close>

definition CHUNK :: nat where
  "CHUNK = 1024 * 1024"

text \<open>
  The loop \<^verbatim>\<open>while True: chunk = await file.read(1024 * 1024); if not chunk: break;
  await tmp.write(chunk)\<close> on the bytes that the upload has left.
\<close>

function write_chunks :: "env \<Rightarrow> path \<Rightarrow> bytes \<Rightarrow> world \<Rightarrow> (pyexc + unit) \<times> world" where
  "write_chunks E p rest w =
     (if take CHUNK rest = [] then (Inr (), w)
      else
        (case file_write E p (take CHUNK rest) w of
           (Inl e, w1) \<Rightarrow> (Inl e, w1)
         | (Inr u, w1) \<Rightarrow> write_chunks E p (drop CHUNK rest) w1))"
  by pat_completeness auto
termination
  by (relation "measure (\<lambda>(E, p, rest, w). length rest)") (auto simp: CHUNK_def)

declare write_chunks.simps [simp del]

text \<open>
  The body of the \<^verbatim>\<open>try\<close> up to the move. An exception comes with the value that
  \<^verbatim>\<open>temp_file_path\<close> has when it is raised; the normal result is the path to move.
\<close>

definition overwrite_prepare ::
  "env \<Rightarrow> upload \<Rightarrow> path \<Rightarrow> world \<Rightarrow> ((pyexc \<times> path) + path) \<times> world" where
  "overwrite_prepare E file target_path w =
     (case next_uuid E w of
        (u, w0) \<Rightarrow>
          (let temp_filename = ''.'' @ u @ ''.tmp'';
               temp_file_path = Path (parent target_path) temp_filename
           in case open_write E temp_file_path w0 of
                (Inl e, w1) \<Rightarrow> (Inl (e, temp_file_path), w1)
              | (Inr u1, w1) \<Rightarrow>
                  (case write_chunks E temp_file_path (content file) w1 of
                     (Inl e, w2) \<Rightarrow> (Inl (e, temp_file_path), w2)
                   | (Inr u2, w2) \<Rightarrow>
                       if lower (suffix (filename file)) = ''.kml''
                       then
                         (let output_filepath = with_suffix temp_file_path ''.geojson''
                          in case convert_and_save_kml_to_geojson E temp_file_path
                                    output_filepath w2 of
                               (Inl e, w3) \<Rightarrow> (Inl (e, temp_file_path), w3)
                             | (Inr u3, w3) \<Rightarrow> (Inr output_filepath, w3))
                       else (Inr temp_file_path, w2))))"

text \<open>The whole body of the \<^verbatim>\<open>try\<close>: the preparation, then the move onto the target.\<close>

definition overwrite_try ::
  "env \<Rightarrow> upload \<Rightarrow> path \<Rightarrow> world \<Rightarrow> ((pyexc \<times> path) + unit) \<times> world" where
  "overwrite_try E file target_path w =
     (case overwrite_prepare E file target_path w of
        (Inl ep, w1) \<Rightarrow> (Inl ep, w1)
      | (Inr temp_file_path, w1) \<Rightarrow>
          (case shutil_move E temp_file_path target_path w1 of
             (Inl e, w2) \<Rightarrow> (Inl (e, temp_file_path), w2)
           | (Inr u, w2) \<Rightarrow> (Inr (), w2)))"

text \<open>
  The handler \<^verbatim>\<open>except Exception as e\<close> removes the file that \<^verbatim>\<open>temp_file_path\<close>
  names and raises the 500.
\<close>

definition overwrite_file :: "env \<Rightarrow> upload \<Rightarrow> path \<Rightarrow> world \<Rightarrow> (exn + unit) \<times> world" where
  "overwrite_file E file target_path w =
     (case overwrite_try E file target_path w of
        (Inl (e, temp_file_path), w1) \<Rightarrow>
          (Inl (HTTPException 500 (''Failed to overwrite file: '' @ msg e)),
           try_remove E temp_file_path w1)
      | (Inr u, w1) \<Rightarrow> (Inr (), w1))"

section \<open>\<^verbatim>\<open>CRUDService\<close> (\<^verbatim>\<open>app/utility/db_services.py\<close>) and the upload route\<close>

definition get_institution_by_id :: "world \<Rightarrow> string \<Rightarrow> exn + string" where
  "get_institution_by_id w i =
     (if i \<in> set (institutions w) then Inr i
      else Inl (HTTPException 404 ''Institution not found''))"

text \<open>
  The relationships \<^verbatim>\<open>institution.geo_file\<close> and \<^verbatim>\<open>institution.image_file\<close>
  (\<^verbatim>\<open>uselist=False\<close>): the row of the table that refers to the institution, or
  \<^verbatim>\<open>None\<close>.
\<close>

definition geo_file :: "world \<Rightarrow> string \<Rightarrow> file_row option" where
  "geo_file w i = find (\<lambda>r. institution_id r = i) (geofiles w)"

definition image_file :: "world \<Rightarrow> string \<Rightarrow> file_row option" where
  "image_file w i = find (\<lambda>r. institution_id r = i) (imagefiles w)"

text \<open>
  \<^verbatim>\<open>db.delete(institution); db.commit()\<close> with \<^verbatim>\<open>cascade="all, delete-orphan"\<close> on
  both relationships.
\<close>

definition db_delete_institution :: "env \<Rightarrow> string \<Rightarrow> world \<Rightarrow> (exn + unit) \<times> world" where
  "db_delete_institution E i w =
     (case fails E DbCommit of
        Some e \<Rightarrow> (Inl (Raised e), w)
      | None \<Rightarrow>
          (Inr (), w\<lparr>institutions := removeAll i (institutions w),
                     geofiles := filter (\<lambda>r. institution_id r \<noteq> i) (geofiles w),
                     imagefiles := filter (\<lambda>r. institution_id r \<noteq> i) (imagefiles w)\<rparr>))"

text \<open>The message of the \<^verbatim>\<open>AttributeError\<close> of \<^verbatim>\<open>None.path\<close>.\<close>

definition none_has_no_path :: string where
  "none_has_no_path =
     [CHR 0x27] @ ''NoneType'' @ [CHR 0x27] @ '' object has no attribute ''
       @ [CHR 0x27] @ ''path'' @ [CHR 0x27]"

text \<open>
  \<^verbatim>\<open>delete_institution\<close>: each \<^verbatim>\<open>.path\<close> is read when its line runs, and reading it
  from \<^verbatim>\<open>None\<close> raises \<^verbatim>\<open>AttributeError\<close>.
\<close>

definition delete_institution :: "env \<Rightarrow> string \<Rightarrow> world \<Rightarrow> (exn + unit) \<times> world" where
  "delete_institution E i w =
     (case get_institution_by_id w i of
        Inl e \<Rightarrow> (Inl e, w)
      | Inr institution \<Rightarrow>
          (case geo_file w institution of
             None \<Rightarrow> (Inl (Raised (PyExc AttributeError none_has_no_path)), w)
           | Some g \<Rightarrow>
               (case delete_file E (row_path g) w of
                  (Inl e, w1) \<Rightarrow> (Inl e, w1)
                | (Inr u, w1) \<Rightarrow>
                    (case image_file w1 institution of
                       None \<Rightarrow> (Inl (Raised (PyExc AttributeError none_has_no_path)), w1)
                     | Some im \<Rightarrow>
                         (case delete_file E (row_path im) w1 of
                            (Inl e, w2) \<Rightarrow> (Inl e, w2)
                          | (Inr u1, w2) \<Rightarrow> db_delete_institution E institution w2)))))"

definition file_exists :: "world \<Rightarrow> string \<Rightarrow> bool \<Rightarrow> bool" where
  "file_exists w i is_geo =
     (let model = (if is_geo then geofiles w else imagefiles w)
      in find (\<lambda>r. institution_id r = i) model \<noteq> None)"

text \<open>\<^verbatim>\<open>os.path.getsize\<close>\<close>

definition getsize :: "world \<Rightarrow> path \<Rightarrow> pyexc + nat" where
  "getsize w p =
     (case files w p of
        None \<Rightarrow> Inl (PyExc FileNotFoundError ''No such file or directory'')
      | Some c \<Rightarrow> Inr (length c))"

text \<open>
  \<^verbatim>\<open>db.add(new_file); db.commit(); db.refresh(new_file)\<close>: the commit raises when the
  name is already in the table (the column is unique) or the institution does not exist
  (the foreign key); the length limits of the columns are not modelled.
\<close>

definition db_add_commit :: "env \<Rightarrow> bool \<Rightarrow> file_row \<Rightarrow> world \<Rightarrow> (exn + file_row) \<times> world" where
  "db_add_commit E is_geo new_file w =
     (let model = (if is_geo then geofiles w else imagefiles w)
      in case fails E DbCommit of
           Some e \<Rightarrow> (Inl (Raised e), w)
         | None \<Rightarrow>
             if row_name new_file \<in> set (map row_name model)
                \<or> institution_id new_file \<notin> set (institutions w)
             then (Inl (Raised (PyExc IntegrityError ''constraint failed'')), w)
             else (Inr new_file,
                   if is_geo then w\<lparr>geofiles := geofiles w @ [new_file]\<rparr>
                   else w\<lparr>imagefiles := imagefiles w @ [new_file]\<rparr>))"

definition create_file :: "env \<Rightarrow> upload \<Rightarrow> string \<Rightarrow> world \<Rightarrow> (exn + file_row) \<times> world" where
  "create_file E file i w =
     (case save_file E file w of
        (Inl e, w1) \<Rightarrow> (Inl e, w1)
      | (Inr file_path, w1) \<Rightarrow>
          (let is_geo_model = (content_type file \<in> GEO_MIME_TYPES);
               file_label = (if is_geo_model then ''geo'' else ''image'');
               base_url = ''localhost:8000/api/v1/files/'' @ file_label @ ''/''
           in case getsize w1 file_path of
                Inl e \<Rightarrow> (Inl (Raised e), w1)
              | Inr sz \<Rightarrow>
                  db_add_commit E is_geo_model
                    \<lparr>row_name = name file_path,
                     row_content_type = content_type file,
                     row_path = file_path,
                     institution_id = i,
                     row_size = sz,
                     row_url = base_url @ name file_path\<rparr> w1))"

text \<open>The two 400 details of the route \<^verbatim>\<open>upload_file\<close>.\<close>

definition invalid_type_detail :: "string \<Rightarrow> string" where
  "invalid_type_detail ct =
     ''Invalid file type '' @ [CHR 0x27] @ ct @ [CHR 0x27]
       @ ''. Allowed types are images, GeoJSON, or KML.''"

definition already_exists_detail :: "string \<Rightarrow> string" where
  "already_exists_detail fn =
     ''File with name '' @ [CHR 0x27] @ fn @ [CHR 0x27]
       @ '' already exists for institution.''"

text \<open>
  The loop of the route \<^verbatim>\<open>upload_file\<close> (\<^verbatim>\<open>app/routers/files.py\<close>) with its two
  result lists.
\<close>

fun upload_loop ::
  "env \<Rightarrow> upload list \<Rightarrow> string \<Rightarrow> file_row list \<Rightarrow> file_row list \<Rightarrow> world
     \<Rightarrow> (exn + file_row list \<times> file_row list) \<times> world" where
  "upload_loop E [] i geo_files image_files w = (Inr (geo_files, image_files), w)"
| "upload_loop E (file # rest) i geo_files image_files w =
     (if content_type file \<notin> ALLOWED_MIME_TYPES
      then (Inl (HTTPException 400 (invalid_type_detail (content_type file))), w)
      else
        (let is_geo = (content_type file \<in> GEO_MIME_TYPES)
         in if file_exists w i is_geo
            then (Inl (HTTPException 400 (already_exists_detail (filename file))), w)
            else
              (case create_file E file i w of
                 (Inl e, w1) \<Rightarrow> (Inl e, w1)
               | (Inr saved_file, w1) \<Rightarrow>
                   if is_geo
                   then upload_loop E rest i (geo_files @ [saved_file]) image_files w1
                   else upload_loop E rest i geo_files (image_files @ [saved_file]) w1)))"

definition upload_file ::
  "env \<Rightarrow> upload list \<Rightarrow> string \<Rightarrow> world
     \<Rightarrow> (exn + file_row list \<times> file_row list) \<times> world" where
  "upload_file E files_in i w = upload_loop E files_in i [] [] w"

text \<open>At most one row of a table refers to each institution.\<close>

definition one_per_institution :: "file_row list \<Rightarrow> bool" where
  "one_per_institution rows = distinct (map institution_id rows)"

text \<open>
  The format of \<^verbatim>\<open>str(uuid.uuid4())\<close>: 36 characters, lower-case hexadecimal digits
  and dashes.
\<close>

definition is_uuid_str :: "string \<Rightarrow> bool" where
  "is_uuid_str u = (length u = 36 \<and> set u \<subseteq> set ''0123456789abcdef-'')"

section \<open>Concrete environments, states and uploads\<close>

definition uuid_a :: string where
  "uuid_a = ''0f8fad5b-d9cb-469f-a165-70867728950e''"

definition uuid_b :: string where
  "uuid_b = ''7c9e6679-7425-40de-944b-e07fc1f90ae7''"

text \<open>
  The KML document of the tests of the repository (\<open>CHR 0x22\<close> is the double quote,
  \<open>CHR 0x0A\<close> the line feed).
\<close>

definition kml_point :: bytes where
  "kml_point =
     ''<?xml version='' @ [CHR 0x22] @ ''1.0'' @ [CHR 0x22] @ '' encoding='' @ [CHR 0x22]
       @ ''UTF-8'' @ [CHR 0x22] @ ''?>'' @ [CHR 0x0A] @ ''<kml xmlns='' @ [CHR 0x22]
       @ ''http://www.opengis.net/kml/2.2'' @ [CHR 0x22] @ ''>'' @ [CHR 0x0A]
       @ ''  <Placemark>'' @ [CHR 0x0A] @ ''    <name>Test Point</name>'' @ [CHR 0x0A]
       @ ''    <Point><coordinates>-122.0,37.0,0</coordinates></Point>'' @ [CHR 0x0A]
       @ ''  </Placemark>'' @ [CHR 0x0A] @ ''</kml>''"

definition feature_collection :: json where
  "feature_collection =
     JObj [(''type'', JStr ''FeatureCollection''),
           (''features'',
            JArr [JObj [(''type'', JStr ''Feature''),
                        (''geometry'',
                         JObj [(''type'', JStr ''Point''),
                               (''coordinates'', JArr [JNum (-122), JNum 37, JNum 0])]),
                        (''properties'', JObj [(''name'', JStr ''Test Point'')])]])]"

text \<open>The text that \<^verbatim>\<open>json.dumps\<close> writes for the collection and \<^verbatim>\<open>json.loads\<close> reads back.\<close>

definition feature_collection_text :: string where
  "feature_collection_text =
     ''{'' @ [CHR 0x22] @ ''type'' @ [CHR 0x22] @ '': '' @ [CHR 0x22]
       @ ''FeatureCollection'' @ [CHR 0x22] @ '', '' @ [CHR 0x22] @ ''features''
       @ [CHR 0x22] @ '': [{'' @ [CHR 0x22] @ ''type'' @ [CHR 0x22] @ '': '' @ [CHR 0x22]
       @ ''Feature'' @ [CHR 0x22] @ '', '' @ [CHR 0x22] @ ''geometry'' @ [CHR 0x22]
       @ '': {'' @ [CHR 0x22] @ ''type'' @ [CHR 0x22] @ '': '' @ [CHR 0x22] @ ''Point''
       @ [CHR 0x22] @ '', '' @ [CHR 0x22] @ ''coordinates'' @ [CHR 0x22]
       @ '': [-122.0, 37.0, 0.0]}, '' @ [CHR 0x22] @ ''properties'' @ [CHR 0x22] @ '': {''
       @ [CHR 0x22] @ ''name'' @ [CHR 0x22] @ '': '' @ [CHR 0x22] @ ''Test Point''
       @ [CHR 0x22] @ ''}}]}''"

text \<open>The message of the \<^verbatim>\<open>UnicodeDecodeError\<close> for a text that starts with \<open>0xFF\<close>.\<close>

definition invalid_start_byte :: string where
  "invalid_start_byte =
     [CHR 0x27] @ ''utf-8'' @ [CHR 0x27]
       @ '' codec can't decode byte 0xff in position 0: invalid start byte''"

text \<open>
  An environment without faults: two UUIDs, a converter that accepts the one KML document
  and raises \<^verbatim>\<open>ExpatError\<close> on anything else, a serialiser and a parser for the one
  collection, and a decoder that rejects the byte \<open>0xFF\<close>.
\<close>

definition env_ok :: env where
  "env_ok =
     \<lparr>uuid4 = (\<lambda>n. if n = 0 then uuid_a else uuid_b),
      convert = (\<lambda>c. if c = kml_point then Inr (PyList [feature_collection])
                      else Inl (PyExc ExpatError ''syntax error: line 1, column 0'')),
      dumps = (\<lambda>j. if j = feature_collection then feature_collection_text else ''null''),
      loads = (\<lambda>s. if s = feature_collection_text then Inr feature_collection
                    else Inl (PyExc JSONDecodeError
                                ''Expecting value: line 1 column 1 (char 0)'')),
      decode_utf8 = (\<lambda>b. if CHR 0xFF \<in> set b then Inl invalid_start_byte else Inr b),
      fails = (\<lambda>op. None)\<rparr>"

text \<open>The converter returns an empty list.\<close>

definition env_empty_list :: env where
  "env_empty_list = env_ok\<lparr>convert := (\<lambda>c. Inr (PyList []))\<rparr>"

text \<open>The converter returns a list that holds an empty dictionary.\<close>

definition env_empty_dict :: env where
  "env_empty_dict = env_ok\<lparr>convert := (\<lambda>c. Inr (PyList [JObj []]))\<rparr>"

definition world0 :: world where
  "world0 =
     \<lparr>files = (\<lambda>p. None), geofiles = [], imagefiles = [],
      institutions = [''inst-1''], uuid_ctr = 0\<rparr>"

definition upload_kml :: upload where
  "upload_kml =
     \<lparr>filename = ''campus.kml'',
      content_type = ''application/vnd.google-earth.kml+xml'',
      content = kml_point\<rparr>"

definition upload_kml_as_image :: upload where
  "upload_kml_as_image =
     \<lparr>filename = ''campus.KML'', content_type = ''image/png'', content = kml_point\<rparr>"

definition upload_png :: upload where
  "upload_png =
     \<lparr>filename = ''logo.png'', content_type = ''image/png'', content = ''PNG-bytes''\<rparr>"

definition upload_geojson :: upload where
  "upload_geojson =
     \<lparr>filename = ''campus.geojson'', content_type = ''application/geo+json'',
      content = feature_collection_text\<rparr>"

definition upload_empty_txt :: upload where
  "upload_empty_txt =
     \<lparr>filename = ''empty.txt'', content_type = ''application/octet-stream'', content = []\<rparr>"

definition upload_empty_noext :: upload where
  "upload_empty_noext =
     \<lparr>filename = ''myfile'', content_type = ''application/octet-stream'', content = []\<rparr>"

text \<open>A stored geo file of institution \<open>inst-1\<close>, its row, and states that hold them.\<close>

definition target_geo :: path where
  "target_geo = Path GEO_JSON_DIR ''3b241101-e2bb-4255-8caf-4136c566a962.geojson''"

definition row_geo :: file_row where
  "row_geo =
     \<lparr>row_name = name target_geo,
      row_content_type = ''application/geo+json'',
      row_path = target_geo,
      institution_id = ''inst-1'',
      row_size = length feature_collection_text,
      row_url = ''localhost:8000/api/v1/files/geo/'' @ name target_geo\<rparr>"

definition world_geo :: world where
  "world_geo =
     world0\<lparr>files := (\<lambda>p. if p = target_geo then Some feature_collection_text else None),
            geofiles := [row_geo]\<rparr>"

text \<open>The stored file holds bytes that are not UTF-8.\<close>

definition world_bad_utf8 :: world where
  "world_bad_utf8 =
     world0\<lparr>files := (\<lambda>p. if p = target_geo then Some [CHR 0xFF, CHR 0xFE, CHR ''<''] else None),
            geofiles := [row_geo]\<rparr>"

text \<open>
  The temporary paths of an overwrite of \<open>target_geo\<close> that draws \<open>uuid_a\<close>, and an
  environment whose disk is full when the converted output is written.
\<close>

definition temp_a :: path where
  "temp_a = Path GEO_JSON_DIR (''.'' @ uuid_a @ ''.tmp'')"

definition temp_out_a :: path where
  "temp_out_a = Path GEO_JSON_DIR (''.'' @ uuid_a @ ''.geojson'')"

definition env_disk_full :: env where
  "env_disk_full =
     env_ok\<lparr>fails := (\<lambda>op. if op = Write temp_out_a 0
                             then Some (PyExc OSError ''[Errno 28] No space left on device'')
                             else None)\<rparr>"

text \<open>
  The two paths of a save of \<open>upload_kml\<close> that draws \<open>uuid_a\<close>, and an environment
  whose disk is full when the converted output of that save is written.
\<close>

definition saved_kml_a :: path where
  "saved_kml_a = Path GEO_JSON_DIR (uuid_a @ ''.kml'')"

definition saved_out_a :: path where
  "saved_out_a = Path GEO_JSON_DIR (uuid_a @ ''.geojson'')"

definition env_disk_full_save :: env where
  "env_disk_full_save =
     env_ok\<lparr>fails := (\<lambda>op. if op = Write saved_out_a 0
                             then Some (PyExc OSError ''[Errno 28] No space left on device'')
                             else None)\<rparr>"

text \<open>
  The directory that \<^verbatim>\<open>_get_upload_path\<close> chooses for an upload, and the path that
  it allocates in the state \<open>w\<close>: the next UUID followed by the extension.
\<close>

definition upload_dir :: "upload \<Rightarrow> string" where
  "upload_dir f = (if content_type f \<in> GEO_MIME_TYPES then GEO_JSON_DIR else IMAGE_DIR)"

definition allocated_path :: "env \<Rightarrow> upload \<Rightarrow> world \<Rightarrow> path" where
  "allocated_path E f w = Path (upload_dir f) (uuid4 E (uuid_ctr w) @ suffix (filename f))"

section \<open>Frame predicate\<close>

text \<open>
  From \<open>w\<close> to \<open>w'\<close> the database tables are unchanged and every file outside the set
  \<open>S\<close> of paths is what it was.
\<close>

definition modifies_only :: "path set \<Rightarrow> world \<Rightarrow> world \<Rightarrow> bool" where
  "modifies_only S w w' =
     (geofiles w' = geofiles w \<and> imagefiles w' = imagefiles w
      \<and> institutions w' = institutions w
      \<and> (\<forall>q. q \<notin> S \<longrightarrow> files w' q = files w q))"

section \<open>Unfolding rules\<close>

lemmas path_simps = suffix_def path_name_def name_suffix_def with_suffix_def lower_char_def

lemmas storage_simps = next_uuid_def os_makedirs_def os_path_exists_def open_write_def
  file_write_def write_file_def os_remove_def shutil_move_def try_remove_def

lemmas handler_simps = kml2geojson_convert_def convert_and_save_try_def
  convert_and_save_kml_to_geojson_def get_upload_path_def save_file_try_def save_file_def
  read_text_def load_geojson_try_def load_geojson_content_def delete_file_def
  overwrite_prepare_def overwrite_try_def overwrite_file_def

lemmas service_simps = get_institution_by_id_def geo_file_def image_file_def
  db_delete_institution_def none_has_no_path_def delete_institution_def file_exists_def
  getsize_def db_add_commit_def create_file_def invalid_type_detail_def
  already_exists_detail_def upload_file_def one_per_institution_def

lemmas example_simps = uuid_a_def uuid_b_def kml_point_def feature_collection_def
  invalid_start_byte_def
  feature_collection_text_def env_ok_def env_empty_list_def env_empty_dict_def world0_def
  upload_kml_def saved_kml_a_def saved_out_a_def env_disk_full_save_def
  upload_kml_as_image_def upload_png_def upload_geojson_def upload_empty_txt_def
  upload_empty_noext_def target_geo_def row_geo_def world_geo_def world_bad_utf8_def
  temp_a_def temp_out_a_def env_disk_full_def GEO_JSON_DIR_def IMAGE_DIR_def
  GEO_MIME_TYPES_def ALLOWED_MIME_TYPES_def

section \<open>Empty uploads (C4)\<close>

text \<open>
  C4 as stated fails on an empty upload whose file name has no extension: the
  path is allocated before the bytes are read, so the extension check answers first.
\<close>

theorem save_file_empty_noext_counterexample:
  "content upload_empty_noext = []
   \<and> save_file env_ok upload_empty_noext world0
       = (Inl (HTTPException 400 ''File has no extension''), world0)
   \<and> fst (save_file env_ok upload_empty_noext world0)
       \<noteq> Inl (HTTPException 400 ''Empty file uploaded'')"
  by (simp add: path_simps storage_simps handler_simps example_simps)

text \<open>
  C4, amended. For every upload of zero bytes: if the file name has an extension and the
  upload directory can be created, \<^verbatim>\<open>save_file\<close> fails with 400 and the detail
  \<open>Empty file uploaded\<close>; if the file name has no extension it fails with 400 and the
  detail \<open>File has no extension\<close>; in every case it fails with an \<^verbatim>\<open>HTTPException\<close>
  and the files on disk are what they were.
\<close>

theorem save_file_empty_upload:
  assumes "content f = []"
  shows "(suffix (filename f) \<noteq> []
            \<and> fails E (Makedirs (if content_type f \<in> GEO_MIME_TYPES
                                  then GEO_JSON_DIR else IMAGE_DIR)) = None
          \<longrightarrow> fst (save_file E f w) = Inl (HTTPException 400 ''Empty file uploaded''))
       \<and> (suffix (filename f) = []
          \<longrightarrow> fst (save_file E f w) = Inl (HTTPException 400 ''File has no extension''))
       \<and> (\<exists>status detail. fst (save_file E f w) = Inl (HTTPException status detail))
       \<and> files (snd (save_file E f w)) = files w"
proof -
  obtain c m where e: "fails E (Makedirs (if content_type f \<in> GEO_MIME_TYPES
                          then GEO_JSON_DIR else IMAGE_DIR)) = None
      \<or> fails E (Makedirs (if content_type f \<in> GEO_MIME_TYPES
                          then GEO_JSON_DIR else IMAGE_DIR)) = Some (PyExc c m)"
    by (metis option.exhaust pyexc.exhaust)
  from e assms show ?thesis
    by (auto simp: save_file_def save_file_try_def get_upload_path_def next_uuid_def
          os_makedirs_def Let_def)
qed

theorem save_file_empty_upload_witness:
  "content upload_empty_txt = []
   \<and> suffix (filename upload_empty_txt) \<noteq> []
   \<and> fails env_ok (Makedirs GEO_JSON_DIR) = None
   \<and> fst (save_file env_ok upload_empty_txt world0)
       = Inl (HTTPException 400 ''Empty file uploaded'')
   \<and> files (snd (save_file env_ok upload_empty_txt world0)) = files world0"
  using save_file_empty_upload [of upload_empty_txt env_ok world0]
  by (simp add: path_simps example_simps)

section \<open>Frame lemmas\<close>

lemma modifies_only_refl: "modifies_only S w w" by (simp add: modifies_only_def)
lemma modifies_only_trans:
  "modifies_only S w w1 \<Longrightarrow> modifies_only T w1 w2 \<Longrightarrow> modifies_only (S \<union> T) w w2"
  by (simp add: modifies_only_def)
lemma modifies_only_mono: "modifies_only S w w' \<Longrightarrow> S \<subseteq> T \<Longrightarrow> modifies_only T w w'"
  by (auto simp: modifies_only_def)

lemma next_uuid_frame: "next_uuid E w = (u, w') \<Longrightarrow> modifies_only {} w w'"
  by (auto simp: modifies_only_def next_uuid_def)
lemma open_write_frame: "open_write E p w = (r, w') \<Longrightarrow> modifies_only {p} w w'"
  by (auto simp: modifies_only_def open_write_def split: option.splits)
lemma file_write_frame: "file_write E p d w = (r, w') \<Longrightarrow> modifies_only {p} w w'"
  by (auto simp: modifies_only_def file_write_def Let_def split: option.splits)
lemma write_file_frame: "write_file E p d w = (r, w') \<Longrightarrow> modifies_only {p} w w'"
proof -
  assume a: "write_file E p d w = (r, w')"
  obtain r1 w1 where o: "open_write E p w = (r1, w1)" by (cases "open_write E p w")
  then have f1: "modifies_only {p} w w1" by (rule open_write_frame)
  show ?thesis
  proof (cases r1)
    case (Inl e) with a o f1 show ?thesis by (simp add: write_file_def)
  next
    case (Inr u)
    with a o have "file_write E p d w1 = (r, w')" by (simp add: write_file_def)
    then have "modifies_only {p} w1 w'" by (rule file_write_frame)
    with f1 show ?thesis using modifies_only_trans by fastforce
  qed
qed
lemma os_remove_frame: "os_remove E p w = (r, w') \<Longrightarrow> modifies_only {p} w w'"
  by (auto simp: modifies_only_def os_remove_def split: option.splits if_splits)
lemma shutil_move_frame: "shutil_move E a b w = (r, w') \<Longrightarrow> modifies_only {a, b} w w'"
  by (auto simp: modifies_only_def shutil_move_def split: option.splits)
lemma try_remove_frame: "modifies_only {p} w (try_remove E p w)"
  by (cases "os_remove E p w") (auto simp: try_remove_def modifies_only_refl dest: os_remove_frame)

lemma convert_and_save_try_frame:
  "convert_and_save_try E a b w = (r, w') \<Longrightarrow> modifies_only {b} w w'"
  by (auto simp: convert_and_save_try_def modifies_only_refl
        split: sum.splits prod.splits if_splits dest: write_file_frame)

lemma convert_and_save_frame:
  "convert_and_save_kml_to_geojson E a b w = (r, w') \<Longrightarrow> modifies_only {a, b} w w'"
proof -
  assume x: "convert_and_save_kml_to_geojson E a b w = (r, w')"
  obtain r1 w1 where t: "convert_and_save_try E a b w = (r1, w1)"
    by (cases "convert_and_save_try E a b w")
  then have "modifies_only {b} w w1" by (rule convert_and_save_try_frame)
  moreover have "modifies_only {a} w1 (try_remove E a w1)" by (rule try_remove_frame)
  moreover from x t have "w' = try_remove E a w1"
    by (simp add: convert_and_save_kml_to_geojson_def)
  ultimately show ?thesis using modifies_only_trans [of "{b}" w w1 "{a}" w'] by (simp add: insert_commute)
qed

section \<open>Loading GeoJSON content (C6)\<close>

text \<open>
  C6 as stated fails on a stored file whose bytes are not UTF-8: reading it in
  text mode raises \<^verbatim>\<open>UnicodeDecodeError\<close>, a \<^verbatim>\<open>ValueError\<close>, so the handler
  \<^verbatim>\<open>except ValueError\<close> answers 400 with the message of the decoder. The path is
  present, nothing was parsed, and the error is neither the parse error nor the structure
  error, and nothing is returned.
\<close>

theorem load_geojson_bad_utf8_counterexample:
  "os_path_exists world_bad_utf8 target_geo
   \<and> load_geojson_content env_ok target_geo world_bad_utf8
       = Inl (HTTPException 400 invalid_start_byte)
   \<and> load_geojson_content env_ok target_geo world_bad_utf8
       \<noteq> Inl (HTTPException 404 ''GeoJSON file not found'')
   \<and> load_geojson_content env_ok target_geo world_bad_utf8
       \<noteq> Inl (HTTPException 400 ''Could not parse GeoJSON file content'')
   \<and> load_geojson_content env_ok target_geo world_bad_utf8
       \<noteq> Inl (HTTPException 400
                ''Invalid GeoJSON structure: Missing 'type' key or not a dictionary.'')"
  by (simp add: storage_simps handler_simps example_simps)

lemma load_geojson_except_404:
  "load_geojson_except e = HTTPException 404 d
     \<longleftrightarrow> (\<exists>m. e = PyExc FileNotFoundError m) \<and> d = ''GeoJSON file not found''"
  by (cases e) auto

text \<open>
  C6, amended. When opening and reading the file does not fail:
  \<^verbatim>\<open>load_geojson_content\<close> fails with 404 \<open>GeoJSON file not found\<close> when the path is
  absent, and otherwise only if the parser raised \<^verbatim>\<open>FileNotFoundError\<close>; when the
  stored bytes are not valid UTF-8 it fails with 400 and the message of the decoder; and
  when they decode to a text: if \<^verbatim>\<open>json.loads\<close> raises \<^verbatim>\<open>JSONDecodeError\<close> it fails
  with 400 \<open>Could not parse GeoJSON file content\<close>; if \<^verbatim>\<open>json.loads\<close> raises
  another exception it fails with 400 and the message of the exception when that is a
  \<^verbatim>\<open>ValueError\<close>, and with 500 \<open>Error loading GeoJSON file: ...\<close> when it is not (as
  for the \<^verbatim>\<open>RecursionError\<close> on deeply nested JSON); and if \<^verbatim>\<open>json.loads\<close> returns a
  value, it fails with 400 \<open>Invalid GeoJSON structure: ...\<close> exactly when the value is
  not an object or lacks the key \<open>type\<close>, and returns that value itself exactly in the
  remaining case.
\<close>

theorem load_geojson_content_cases:
  assumes "fails E (OpenRead p) = None"
  shows "(load_geojson_content E p w = Inl (HTTPException 404 ''GeoJSON file not found'')
            \<longleftrightarrow> files w p = None
                \<or> (\<exists>c s m. files w p = Some c \<and> decode_utf8 E c = Inr s
                      \<and> loads E s = Inl (PyExc FileNotFoundError m)))
       \<and> (\<forall>c m. files w p = Some c \<and> decode_utf8 E c = Inl m
            \<longrightarrow> load_geojson_content E p w = Inl (HTTPException 400 m))
       \<and> (\<forall>c s. files w p = Some c \<and> decode_utf8 E c = Inr s \<longrightarrow>
            (\<forall>m. loads E s = Inl (PyExc JSONDecodeError m) \<longrightarrow>
               load_geojson_content E p w
                 = Inl (HTTPException 400 ''Could not parse GeoJSON file content''))
          \<and> (\<forall>cl m. loads E s = Inl (PyExc cl m) \<and> cl \<noteq> JSONDecodeError
                  \<and> cl \<noteq> FileNotFoundError \<longrightarrow>
               load_geojson_content E p w
                 = Inl (if is_ValueError cl then HTTPException 400 m
                        else HTTPException 500 (''Error loading GeoJSON file: '' @ m)))
          \<and> (\<forall>j. loads E s = Inr j \<longrightarrow>
               (load_geojson_content E p w
                  = Inl (HTTPException 400
                      ''Invalid GeoJSON structure: Missing 'type' key or not a dictionary.'')
                 \<longleftrightarrow> \<not> is_dict j \<or> \<not> has_key ''type'' j)
             \<and> (load_geojson_content E p w = Inr j
                 \<longleftrightarrow> is_dict j \<and> has_key ''type'' j)
             \<and> (\<forall>j'. load_geojson_content E p w = Inr j' \<longrightarrow> j' = j)))"
  using assms
  by (auto simp: load_geojson_content_def load_geojson_try_def read_text_def
        os_path_exists_def load_geojson_except_404 split: option.splits sum.splits)

theorem load_geojson_content_cases_witness:
  "fails env_ok (OpenRead target_geo) = None
   \<and> files world_geo target_geo = Some feature_collection_text
   \<and> decode_utf8 env_ok feature_collection_text = Inr feature_collection_text
   \<and> loads env_ok feature_collection_text = Inr feature_collection
   \<and> is_dict feature_collection \<and> has_key ''type'' feature_collection
   \<and> load_geojson_content env_ok target_geo world_geo = Inr feature_collection"
proof -
  have h: "fails env_ok (OpenRead target_geo) = None" by (simp add: env_ok_def)
  have f: "files world_geo target_geo = Some feature_collection_text"
    by (simp add: world_geo_def world0_def)
  have d: "decode_utf8 env_ok feature_collection_text = Inr feature_collection_text"
    by (simp add: env_ok_def feature_collection_text_def)
  have l: "loads env_ok feature_collection_text = Inr feature_collection"
    by (simp add: env_ok_def)
  have s: "is_dict feature_collection \<and> has_key ''type'' feature_collection"
    by (simp add: feature_collection_def)
  from load_geojson_content_cases [OF h, of world_geo] f d l s
  have "load_geojson_content env_ok target_geo world_geo = Inr feature_collection"
    by blast
  with h f d l s show ?thesis by simp
qed

section \<open>Deleting an institution that lacks a file (C10)\<close>

lemma remove_absent_file: "files w p = None \<Longrightarrow> w\<lparr>files := (files w)(p := None)\<rparr> = w"
  by (simp add: fun_upd_idem)

text \<open>
  What \<^verbatim>\<open>delete_institution\<close> does for an existing institution that lacks a geo file
  or an image file: it raises, and it removes no database row. When the geo file is the
  missing one, the \<^verbatim>\<open>AttributeError\<close> is raised before anything is removed. When the
  institution has a geo file and lacks the image file, the geo file is removed from disk
  (its removal not failing) and then the \<^verbatim>\<open>AttributeError\<close> is raised.
\<close>

lemma delete_institution_missing_file:
  assumes "i \<in> set (institutions w)"
      and "geo_file w i = None \<or> image_file w i = None"
  shows "(\<exists>e. fst (delete_institution E i w) = Inl e)
       \<and> geofiles (snd (delete_institution E i w)) = geofiles w
       \<and> imagefiles (snd (delete_institution E i w)) = imagefiles w
       \<and> institutions (snd (delete_institution E i w)) = institutions w
       \<and> (geo_file w i = None \<longrightarrow>
            delete_institution E i w
              = (Inl (Raised (PyExc AttributeError none_has_no_path)), w))
       \<and> (\<forall>g. geo_file w i = Some g \<and> fails E (Remove (row_path g)) = None \<longrightarrow>
            delete_institution E i w
              = (Inl (Raised (PyExc AttributeError none_has_no_path)),
                 w\<lparr>files := (files w)(row_path g := None)\<rparr>))"
proof (cases "geo_file w i")
  case None
  with assms(1) show ?thesis
    by (simp add: delete_institution_def get_institution_by_id_def)
next
  case (Some g)
  with assms(2) have im: "image_file w i = None" by simp
  obtain r w1 where d: "delete_file E (row_path g) w = (r, w1)"
    by (cases "delete_file E (row_path g) w")
  then have fr: "modifies_only {row_path g} w w1"
    by (auto simp: delete_file_def modifies_only_refl
          split: if_splits prod.splits sum.splits dest: os_remove_frame)
  then have im1: "image_file w1 i = None"
    using im by (simp add: image_file_def modifies_only_def)
  have ok: "fails E (Remove (row_path g)) = None \<Longrightarrow>
              r = Inr () \<and> w1 = w\<lparr>files := (files w)(row_path g := None)\<rparr>"
    using d
    by (auto simp: delete_file_def os_remove_def os_path_exists_def remove_absent_file
          split: if_splits)
  from assms(1) Some d fr im1 ok show ?thesis
    by (cases r) (auto simp: delete_institution_def get_institution_by_id_def
          modifies_only_def)
qed

text \<open>
  C10. The claim: for every institution that lacks a geo file or an image file the
  deletion raises on the missing relationship, and neither a database row nor an
  on-disk artifact is removed. The data model allows an institution without files, and
  the test \<^verbatim>\<open>test_delete_institution_success\<close> of the repository deletes such an
  institution and expects success; the code raises \<^verbatim>\<open>AttributeError\<close> on
  \<^verbatim>\<open>institution.geo_file.path\<close> and deletes nothing. For an institution with a geo
  file and no image file the code deletes the geo file from disk first and raises on
  \<^verbatim>\<open>institution.image_file.path\<close> afterwards: the artifact is gone and every row stays.
\<close>

theorem delete_institution_lacking_file_raises:
  "''inst-1'' \<in> set (institutions world0)
   \<and> geo_file world0 ''inst-1'' = None
   \<and> image_file world0 ''inst-1'' = None
   \<and> delete_institution env_ok ''inst-1'' world0
       = (Inl (Raised (PyExc AttributeError none_has_no_path)), world0)
   \<and> geo_file world_geo ''inst-1'' = Some row_geo
   \<and> image_file world_geo ''inst-1'' = None
   \<and> files world_geo target_geo \<noteq> None
   \<and> fst (delete_institution env_ok ''inst-1'' world_geo)
       = Inl (Raised (PyExc AttributeError none_has_no_path))
   \<and> files (snd (delete_institution env_ok ''inst-1'' world_geo)) target_geo = None
   \<and> geofiles (snd (delete_institution env_ok ''inst-1'' world_geo)) = [row_geo]
   \<and> institutions (snd (delete_institution env_ok ''inst-1'' world_geo)) = [''inst-1'']"
  by (simp add: storage_simps handler_simps service_simps example_simps)

section \<open>What \<^verbatim>\<open>save_file\<close> and \<^verbatim>\<open>create_file\<close> touch\<close>

lemma get_upload_path_result:
  "get_upload_path E f w = (r, w') \<Longrightarrow>
     modifies_only {} w w' \<and> (\<forall>p. r = Inr p \<longrightarrow> p = allocated_path E f w)"
  by (auto simp: get_upload_path_def Let_def next_uuid_def modifies_only_def
        allocated_path_def upload_dir_def split: if_splits sum.splits)

lemma save_file_try_frame:
  assumes "save_file_try E f w = (r, w')"
  shows "modifies_only {allocated_path E f w,
           with_suffix (allocated_path E f w) ''.geojson''} w w'"
proof -
  let ?p = "allocated_path E f w"
  let ?S = "{?p, with_suffix ?p ''.geojson''}"
  obtain r0 w0 where g: "get_upload_path E f w = (r0, w0)"
    by (cases "get_upload_path E f w")
  from get_upload_path_result [OF g]
  have f0: "modifies_only {} w w0" and p0: "\<forall>p. r0 = Inr p \<longrightarrow> p = ?p" by simp_all
  from f0 have f0': "modifies_only ?S w w0" by (rule modifies_only_mono) simp
  show ?thesis
  proof (cases r0)
    case (Inl e)
    with assms g f0' show ?thesis by (simp add: save_file_try_def)
  next
    case (Inr p)
    with p0 have pe: "p = ?p" by simp
    show ?thesis
    proof (cases "content f = []")
      case True
      with assms g Inr f0' show ?thesis by (simp add: save_file_try_def)
    next
      case False
      obtain r1 w1 where wf: "write_file E ?p (content f) w0 = (r1, w1)"
        by (cases "write_file E ?p (content f) w0")
      from write_file_frame [OF wf] f0 have f1: "modifies_only ?S w w1"
        using modifies_only_trans [of "{}" w w0 "{?p}" w1]
        by (auto intro: modifies_only_mono)
      show ?thesis
      proof (cases r1)
        case (Inl e)
        with assms g Inr pe False wf f1 show ?thesis by (simp add: save_file_try_def)
      next
        case u: (Inr u)
        show ?thesis
        proof (cases "lower (suffix (filename f)) = ''.kml''")
          case nk: False
          with assms g Inr pe False wf u f1 show ?thesis by (simp add: save_file_try_def)
        next
          case k: True
          obtain r2 w2 where
            cv: "convert_and_save_kml_to_geojson E ?p (with_suffix ?p ''.geojson'') w1 = (r2, w2)"
            by (cases "convert_and_save_kml_to_geojson E ?p (with_suffix ?p ''.geojson'') w1")
          from convert_and_save_frame [OF cv] f1 have f2: "modifies_only ?S w w2"
            using modifies_only_trans [of ?S w w1 ?S w2] by simp
          from assms g Inr pe False wf u k cv have "w' = w2"
            by (auto simp: save_file_try_def Let_def split: sum.splits)
          with f2 show ?thesis by simp
        qed
      qed
    qed
  qed
qed

lemma save_file_frame:
  assumes "save_file E f w = (r, w')"
  shows "modifies_only {allocated_path E f w,
           with_suffix (allocated_path E f w) ''.geojson''} w w'"
proof -
  obtain r0 w0 where t: "save_file_try E f w = (r0, w0)" by (cases "save_file_try E f w")
  with assms have "w' = w0" by (auto simp: save_file_def split: sum.splits)
  with save_file_try_frame [OF t] show ?thesis by simp
qed


text \<open>
  \<^verbatim>\<open>create_file\<close> leaves the institutions alone; it either leaves both file tables as
  they were and fails, or appends the one row it returns to the table of its kind.
\<close>

lemma create_file_tables:
  assumes "create_file E f i w = (r, w')"
  shows "institutions w' = institutions w
       \<and> ((\<exists>e. r = Inl e) \<and> geofiles w' = geofiles w \<and> imagefiles w' = imagefiles w
          \<or> (\<exists>row. r = Inr row \<and> institution_id row = i
               \<and> (if content_type f \<in> GEO_MIME_TYPES
                   then geofiles w' = geofiles w @ [row] \<and> imagefiles w' = imagefiles w
                   else imagefiles w' = imagefiles w @ [row] \<and> geofiles w' = geofiles w)))"
proof -
  obtain r0 w0 where s: "save_file E f w = (r0, w0)" by (cases "save_file E f w")
  from save_file_frame [OF s]
  have db: "geofiles w0 = geofiles w" "imagefiles w0 = imagefiles w"
    "institutions w0 = institutions w"
    by (simp_all add: modifies_only_def)
  show ?thesis
  proof (cases r0)
    case (Inl e)
    with assms s db show ?thesis by (auto simp: create_file_def)
  next
    case (Inr p)
    with assms s db show ?thesis
      by (auto simp: create_file_def db_add_commit_def Let_def
            split: sum.splits option.splits if_splits)
  qed
qed


section \<open>The upload loop keeps one file of each kind per institution\<close>

lemma file_exists_iff:
  "file_exists w i is_geo
     \<longleftrightarrow> i \<in> institution_id ` set (if is_geo then geofiles w else imagefiles w)"
  by (auto simp: file_exists_def Let_def find_None_iff)

lemma upload_loop_one_per_institution:
  "one_per_institution (geofiles w) \<Longrightarrow> one_per_institution (imagefiles w) \<Longrightarrow>
   upload_loop E fs i gs ims w = (r, w') \<Longrightarrow>
   one_per_institution (geofiles w') \<and> one_per_institution (imagefiles w')"
proof (induction fs arbitrary: gs ims w)
  case Nil
  then show ?case by simp
next
  case (Cons f fs)
  show ?case
  proof (cases "content_type f \<notin> ALLOWED_MIME_TYPES
                 \<or> file_exists w i (content_type f \<in> GEO_MIME_TYPES)")
    case True
    with Cons.prems show ?thesis by (auto simp: Let_def split: if_splits)
  next
    case False
    then have al: "content_type f \<in> ALLOWED_MIME_TYPES"
      and ne: "\<not> file_exists w i (content_type f \<in> GEO_MIME_TYPES)" by simp_all
    obtain r1 w1 where c: "create_file E f i w = (r1, w1)" by (cases "create_file E f i w")
    from create_file_tables [OF c] ne Cons.prems(1,2)
    have inv1: "one_per_institution (geofiles w1) \<and> one_per_institution (imagefiles w1)"
      by (auto simp: file_exists_iff one_per_institution_def split: if_splits)
    show ?thesis
    proof (cases r1)
      case (Inl e)
      with Cons.prems(3) al ne c inv1 show ?thesis by (simp add: Let_def)
    next
      case (Inr row)
      with Cons.prems(3) al ne c
      have "\<exists>gs' ims'. upload_loop E fs i gs' ims' w1 = (r, w')"
        by (auto simp: Let_def split: if_splits)
      with Cons.IH inv1 show ?thesis by blast
    qed
  qed
qed

section \<open>Classification of the declared MIME type (C8)\<close>








section \<open>Extensions\<close>

lemma rfind_None_iff: "rfind c xs = None \<longleftrightarrow> c \<notin> set xs"
  by (induction xs) (auto split: option.splits)

lemma rfind_append: "c \<notin> set ys \<Longrightarrow> rfind c (xs @ c # ys) = Some (length xs)"
  by (induction xs) (auto simp: rfind_None_iff split: option.splits)

lemma rfind_Some:
  "rfind c xs = Some i \<Longrightarrow> i < length xs \<and> xs ! i = c \<and> c \<notin> set (drop (Suc i) xs)"
proof (induction xs arbitrary: i)
  case Nil
  then show ?case by simp
next
  case (Cons x xs)
  show ?case
  proof (cases "rfind c xs")
    case None
    with Cons.prems have "i = 0" "x = c" by (auto split: if_splits)
    with None show ?thesis by (simp add: rfind_None_iff)
  next
    case (Some j)
    with Cons.prems have "i = Suc j" by simp
    with Cons.IH [OF Some] show ?thesis by simp
  qed
qed

text \<open>The extension \<^verbatim>\<open>.KML\<close> written with the KELVIN SIGN is \<open>.kml\<close> in lower case.\<close>

lemma lower_kelvin_sign: "lower (''.'' @ [CHR 0xE2, CHR 0x84, CHR 0xAA] @ ''ML'') = ''.kml''"
  by (simp add: lower_char_def)

text \<open>A non-empty suffix is a dot followed by at least one character, none of them a dot.\<close>

lemma name_suffix_shape:
  assumes "name_suffix n \<noteq> []"
  shows "\<exists>stem e. n = stem @ CHR ''.'' # e \<and> name_suffix n = CHR ''.'' # e
           \<and> stem \<noteq> [] \<and> e \<noteq> [] \<and> CHR ''.'' \<notin> set e"
proof -
  from assms obtain i where r: "rfind (CHR ''.'') n = Some i"
    and b: "0 < i" "Suc i < length n" and s: "name_suffix n = drop i n"
    by (auto simp: name_suffix_def split: option.splits if_splits)
  from rfind_Some [OF r] have d: "n ! i = CHR ''.''" "CHR ''.'' \<notin> set (drop (Suc i) n)"
    by simp_all
  from b have "n = take i n @ n ! i # drop (Suc i) n"
    by (simp add: id_take_nth_drop)
  moreover from b have "drop i n = n ! i # drop (Suc i) n"
    by (simp add: Cons_nth_drop_Suc)
  moreover from b have "take i n \<noteq> []" "drop (Suc i) n \<noteq> []" by auto
  ultimately show ?thesis using d s by metis
qed

lemma name_suffix_append:
  assumes "stem \<noteq> []" "e \<noteq> []" "CHR ''.'' \<notin> set e"
  shows "name_suffix (stem @ CHR ''.'' # e) = CHR ''.'' # e"
  using assms rfind_append [of "CHR ''.''" e stem]
  by (cases e) (auto simp: name_suffix_def)

text \<open>Replacing the extension of \<open>stem @ ext\<close>.\<close>

lemma with_suffix_append:
  assumes "stem \<noteq> []" "e \<noteq> []" "CHR ''.'' \<notin> set e"
  shows "with_suffix (Path d (stem @ CHR ''.'' # e)) s = Path d (stem @ s)"
  using name_suffix_append [OF assms] by (simp add: with_suffix_def Let_def)

lemma split_on_subset: "p \<in> set (split_on c s) \<Longrightarrow> set p \<subseteq> set s"
proof (induction s arbitrary: p)
  case Nil
  then show ?case by simp
next
  case step: (Cons x xs)
  show ?case
  proof (cases "x = c")
    case True
    with step.prems have "p = [] \<or> p \<in> set (split_on c xs)" by simp
    with step.IH show ?thesis by auto
  next
    case False
    show ?thesis
    proof (cases "split_on c xs")
      case Nil
      with step.prems False show ?thesis by simp
    next
      case (Cons q qs)
      with step.prems False have pq: "p = x # q \<or> p \<in> set qs" by simp
      from Cons step.IH [of q] have q: "set q \<subseteq> set xs" by simp
      from Cons step.IH have qs: "\<And>r. r \<in> set qs \<Longrightarrow> set r \<subseteq> set xs" by simp
      from pq q qs show ?thesis by auto
    qed
  qed
qed

lemma path_name_subset: "set (path_name s) \<subseteq> set s"
proof (cases "filter (\<lambda>p. p \<noteq> [] \<and> p \<noteq> ''.'') (split_on (CHR ''/'') s) = []")
  case True
  then show ?thesis by (simp add: path_name_def)
next
  case False
  then have "last (filter (\<lambda>p. p \<noteq> [] \<and> p \<noteq> ''.'') (split_on (CHR ''/'') s))
               \<in> set (split_on (CHR ''/'') s)"
    using last_in_set [OF False] by auto
  with False split_on_subset show ?thesis by (simp add: path_name_def)
qed

text \<open>A file name without any dot has no extension.\<close>

lemma suffix_no_dot: "CHR ''.'' \<notin> set fn \<Longrightarrow> suffix fn = []"
proof -
  assume "CHR ''.'' \<notin> set fn"
  with path_name_subset [of fn] have "CHR ''.'' \<notin> set (path_name fn)" by blast
  then show ?thesis by (simp add: suffix_def name_suffix_def rfind_None_iff [THEN iffD2])
qed

lemma split_on_absent: "c \<notin> set s \<Longrightarrow> split_on c s = [s]"
  by (induction s) auto

text \<open>A plain file name that ends in a dot has no extension either.\<close>

lemma suffix_trailing_dot: "CHR ''/'' \<notin> set stem \<Longrightarrow> suffix (stem @ ''.'') = []"
proof -
  assume a: "CHR ''/'' \<notin> set stem"
  then have sp: "split_on (CHR ''/'') (stem @ ''.'') = [stem @ ''.'']"
    by (simp add: split_on_absent)
  have r: "rfind (CHR ''.'') (stem @ ''.'') = Some (length stem)"
    using rfind_append [of "CHR ''.''" "[]" stem] by simp
  show ?thesis
  proof (cases "stem = []")
    case True
    then show ?thesis by (simp add: suffix_def path_name_def name_suffix_def)
  next
    case False
    with sp r show ?thesis by (simp add: suffix_def path_name_def name_suffix_def)
  qed
qed

section \<open>Saving an upload that is not KML (C7)\<close>

lemma write_file_ok:
  assumes "fails E (OpenWrite p) = None" "fails E (Write p 0) = None"
  shows "write_file E p d w = (Inr (), w\<lparr>files := (files w)(p \<mapsto> d)\<rparr>)"
  using assms by (simp add: write_file_def open_write_def file_write_def)

lemma get_upload_path_ok:
  assumes "suffix (filename f) \<noteq> []" "fails E (Makedirs (upload_dir f)) = None"
  shows "get_upload_path E f w
           = (Inr (allocated_path E f w), w\<lparr>uuid_ctr := Suc (uuid_ctr w)\<rparr>)"
  using assms
  by (simp add: get_upload_path_def Let_def next_uuid_def os_makedirs_def upload_dir_def
        allocated_path_def)

lemma get_upload_path_no_extension:
  assumes "suffix (filename f) = []"
  shows "get_upload_path E f w = (Inl (HTTPException 400 ''File has no extension''), w)"
  using assms by (simp add: get_upload_path_def)

lemma suffix_shape:
  assumes "suffix fn \<noteq> []"
  shows "\<exists>e. suffix fn = CHR ''.'' # e \<and> e \<noteq> [] \<and> CHR ''.'' \<notin> set e"
  using name_suffix_shape [of "path_name fn"] assms by (auto simp: suffix_def)

text \<open>
  C7. For every non-empty upload whose file name has an extension other than
  \<open>.kml\<close> in any case (as \<^verbatim>\<open>Path(filename).suffix.lower() == '.kml'\<close> decides it,
  so a \<open>K\<close> written as KELVIN SIGN counts as \<open>k\<close>), when the storage calls of the save
  do not fail and the UUID has
  the format of \<^verbatim>\<open>uuid.uuid4()\<close>: \<^verbatim>\<open>save_file\<close> returns the allocated path, the file
  at that path holds exactly the uploaded bytes, nothing else on disk and no record
  changes, the directory is the geo directory for a geo MIME type and the image directory
  otherwise, and the name is the 36 characters of the UUID, a dot and the original
  extension. When the file name has no extension (\<^verbatim>\<open>Path(filename).suffix\<close> is empty,
  as it is for a name without a dot and for a plain name that ends in a dot),
  \<^verbatim>\<open>save_file\<close> fails with 400 \<open>File has no extension\<close> and changes nothing.
\<close>

theorem save_file_non_kml:
  "(suffix (filename f) \<noteq> [] \<and> lower (suffix (filename f)) \<noteq> ''.kml''
      \<and> content f \<noteq> []
      \<and> fails E (Makedirs (upload_dir f)) = None
      \<and> fails E (OpenWrite (allocated_path E f w)) = None
      \<and> fails E (Write (allocated_path E f w) 0) = None
      \<and> is_uuid_str (uuid4 E (uuid_ctr w))
    \<longrightarrow> (\<exists>w'. save_file E f w = (Inr (allocated_path E f w), w')
              \<and> files w' (allocated_path E f w) = Some (content f)
              \<and> modifies_only {allocated_path E f w} w w')
        \<and> parent (allocated_path E f w)
            = (if content_type f \<in> GEO_MIME_TYPES then GEO_JSON_DIR else IMAGE_DIR)
        \<and> (\<exists>u e. name (allocated_path E f w) = u @ ''.'' @ e
              \<and> length u = 36 \<and> set u \<subseteq> set ''0123456789abcdef-''
              \<and> e \<noteq> [] \<and> CHR ''.'' \<notin> set e
              \<and> suffix (filename f) = ''.'' @ e))
   \<and> (suffix (filename f) = []
        \<longrightarrow> save_file E f w = (Inl (HTTPException 400 ''File has no extension''), w))
   \<and> (CHR ''.'' \<notin> set (filename f) \<longrightarrow> suffix (filename f) = [])
   \<and> (\<forall>stem. filename f = stem @ ''.'' \<and> CHR ''/'' \<notin> set stem
        \<longrightarrow> suffix (filename f) = [])"
proof (intro conjI impI allI)
  assume a: "suffix (filename f) \<noteq> [] \<and> lower (suffix (filename f)) \<noteq> ''.kml''
      \<and> content f \<noteq> []
      \<and> fails E (Makedirs (upload_dir f)) = None
      \<and> fails E (OpenWrite (allocated_path E f w)) = None
      \<and> fails E (Write (allocated_path E f w) 0) = None
      \<and> is_uuid_str (uuid4 E (uuid_ctr w))"
  let ?p = "allocated_path E f w"
  let ?w1 = "w\<lparr>uuid_ctr := Suc (uuid_ctr w)\<rparr>"
  let ?w2 = "?w1\<lparr>files := (files ?w1)(?p \<mapsto> content f)\<rparr>"
  from a have g: "get_upload_path E f w = (Inr ?p, ?w1)"
    by (simp add: get_upload_path_ok)
  from a have wr: "write_file E ?p (content f) ?w1 = (Inr (), ?w2)"
    by (simp add: write_file_ok)
  from a g wr have s: "save_file E f w = (Inr ?p, ?w2)"
    by (simp add: save_file_def save_file_try_def)
  have "files ?w2 ?p = Some (content f)" by simp
  moreover have "modifies_only {?p} w ?w2" by (simp add: modifies_only_def)
  ultimately show "\<exists>w'. save_file E f w = (Inr ?p, w')
              \<and> files w' ?p = Some (content f) \<and> modifies_only {?p} w w'"
    using s by blast
  show "parent ?p = (if content_type f \<in> GEO_MIME_TYPES then GEO_JSON_DIR else IMAGE_DIR)"
    by (simp add: allocated_path_def upload_dir_def)
  from a suffix_shape [of "filename f"] obtain e where
    e: "suffix (filename f) = CHR ''.'' # e" "e \<noteq> []" "CHR ''.'' \<notin> set e" by blast
  from a have u: "length (uuid4 E (uuid_ctr w)) = 36"
    "set (uuid4 E (uuid_ctr w)) \<subseteq> set ''0123456789abcdef-''"
    by (simp_all add: is_uuid_str_def)
  from e have "name ?p = uuid4 E (uuid_ctr w) @ ''.'' @ e" by (simp add: allocated_path_def)
  with e u show "\<exists>u e. name ?p = u @ ''.'' @ e
              \<and> length u = 36 \<and> set u \<subseteq> set ''0123456789abcdef-''
              \<and> e \<noteq> [] \<and> CHR ''.'' \<notin> set e
              \<and> suffix (filename f) = ''.'' @ e"
    by (intro exI [of _ "uuid4 E (uuid_ctr w)"] exI [of _ e]) simp
next
  assume "suffix (filename f) = []"
  then show "save_file E f w = (Inl (HTTPException 400 ''File has no extension''), w)"
    by (simp add: save_file_def save_file_try_def get_upload_path_no_extension)
next
  assume "CHR ''.'' \<notin> set (filename f)"
  then show "suffix (filename f) = []" by (rule suffix_no_dot)
next
  fix stem
  assume "filename f = stem @ ''.'' \<and> CHR ''/'' \<notin> set stem"
  then show "suffix (filename f) = []" by (simp add: suffix_trailing_dot)
qed

theorem save_file_non_kml_witness:
  "suffix (filename upload_png) = ''.png''
   \<and> lower (suffix (filename upload_png)) \<noteq> ''.kml''
   \<and> content upload_png \<noteq> []
   \<and> fails env_ok (Makedirs (upload_dir upload_png)) = None
   \<and> fails env_ok (OpenWrite (allocated_path env_ok upload_png world0)) = None
   \<and> fails env_ok (Write (allocated_path env_ok upload_png world0) 0) = None
   \<and> is_uuid_str (uuid4 env_ok (uuid_ctr world0))
   \<and> allocated_path env_ok upload_png world0
       = Path ''app/static/images'' ''0f8fad5b-d9cb-469f-a165-70867728950e.png''
   \<and> fst (save_file env_ok upload_png world0)
       = Inr (Path ''app/static/images'' ''0f8fad5b-d9cb-469f-a165-70867728950e.png'')
   \<and> files (snd (save_file env_ok upload_png world0))
        (Path ''app/static/images'' ''0f8fad5b-d9cb-469f-a165-70867728950e.png'')
       = Some ''PNG-bytes''"
proof -
  have s: "suffix (filename upload_png) = ''.png''"
    by (simp add: upload_png_def path_simps)
  have l: "lower (suffix (filename upload_png)) \<noteq> ''.kml''"
    by (simp add: s lower_char_def)
  have c: "content upload_png \<noteq> []" and cc: "content upload_png = ''PNG-bytes''"
    by (simp_all add: upload_png_def)
  have io: "fails env_ok (Makedirs (upload_dir upload_png)) = None"
    "fails env_ok (OpenWrite (allocated_path env_ok upload_png world0)) = None"
    "fails env_ok (Write (allocated_path env_ok upload_png world0) 0) = None"
    by (simp_all add: env_ok_def)
  have u: "is_uuid_str (uuid4 env_ok (uuid_ctr world0))"
    by (simp add: is_uuid_str_def env_ok_def world0_def uuid_a_def)
  have p: "allocated_path env_ok upload_png world0
       = Path ''app/static/images'' ''0f8fad5b-d9cb-469f-a165-70867728950e.png''"
    by (simp add: allocated_path_def upload_dir_def s)
       (simp add: upload_png_def GEO_MIME_TYPES_def IMAGE_DIR_def env_ok_def world0_def
          uuid_a_def)
  from save_file_non_kml [of upload_png env_ok world0] s l c io u
  obtain w' where "save_file env_ok upload_png world0
        = (Inr (allocated_path env_ok upload_png world0), w')"
    "files w' (allocated_path env_ok upload_png world0) = Some (content upload_png)"
    by auto
  with s l c io u p cc show ?thesis by simp
qed

section \<open>Saving a KML upload (C2, C9)\<close>

text \<open>The \<^verbatim>\<open>finally\<close> clause leaves no input file when its removal does not fail.\<close>

lemma try_remove_gone:
  "fails E (Remove p) = None \<Longrightarrow> files (try_remove E p w) p = None"
  by (simp add: try_remove_def os_remove_def os_path_exists_def)

lemma convert_and_save_removes_input:
  assumes "convert_and_save_kml_to_geojson E a b w = (r, w')"
      and "fails E (Remove a) = None"
  shows "files w' a = None"
proof -
  obtain r1 w1 where "convert_and_save_try E a b w = (r1, w1)"
    by (cases "convert_and_save_try E a b w")
  with assms(1) have "w' = try_remove E a w1"
    by (simp add: convert_and_save_kml_to_geojson_def)
  with assms(2) show ?thesis by (simp add: try_remove_gone)
qed

text \<open>When the converter raises, the error is a \<^verbatim>\<open>ValueError\<close> and no output is written.\<close>

lemma convert_and_save_converter_raises:
  assumes "files w a = Some c" "convert E c = Inl e"
      and "fails E (Makedirs (parent b)) = None" "a \<noteq> b"
  shows "\<exists>w'. convert_and_save_kml_to_geojson E a b w
           = (Inl (PyExc ValueError
                     (if cls e = ExpatError then ''Invalid KML structure or encoding''
                      else ''KML to GeoJSON conversion failed'')), w')
         \<and> files w' b = files w b"
proof -
  from assms have t: "convert_and_save_try E a b w
           = (Inl (PyExc ValueError
                     (if cls e = ExpatError then ''Invalid KML structure or encoding''
                      else ''KML to GeoJSON conversion failed'')), w)"
    by (simp add: convert_and_save_try_def os_makedirs_def kml2geojson_convert_def)
  from try_remove_frame [of a w E] assms(4) have "files (try_remove E a w) b = files w b"
    by (simp add: modifies_only_def)
  with t show ?thesis by (simp add: convert_and_save_kml_to_geojson_def)
qed

text \<open>A normal return means that the output file exists.\<close>

lemma convert_and_save_returns:
  assumes "convert_and_save_kml_to_geojson E a b w = (Inr u, w')" "a \<noteq> b"
  shows "files w' b \<noteq> None"
proof -
  obtain r1 w1 where t: "convert_and_save_try E a b w = (r1, w1)"
    by (cases "convert_and_save_try E a b w")
  with assms(1) have r: "r1 = Inr u" and w: "w' = try_remove E a w1"
    by (simp_all add: convert_and_save_kml_to_geojson_def)
  from t r have "files w1 b \<noteq> None"
    by (auto simp: convert_and_save_try_def os_path_exists_def
          split: sum.splits if_splits prod.splits)
  moreover from try_remove_frame [of a w1 E] assms(2)
  have "files (try_remove E a w1) b = files w1 b" by (simp add: modifies_only_def)
  ultimately show ?thesis using w by simp
qed

text \<open>The conversion succeeds when the converter does and the storage does not fail.\<close>

lemma convert_and_save_ok:
  assumes "files w a = Some c" "convert E c = Inr res" "subscript_result res = Inr g"
      and "truthy g" "a \<noteq> b"
      and "fails E (Makedirs (parent b)) = None" "fails E (OpenWrite b) = None"
      and "fails E (Write b 0) = None" "fails E (Remove a) = None"
  shows "convert_and_save_kml_to_geojson E a b w
           = (Inr (), w\<lparr>files := ((files w)(b \<mapsto> dumps E g))(a := None)\<rparr>)"
proof -
  from assms have "convert_and_save_try E a b w
                     = (Inr (), w\<lparr>files := (files w)(b \<mapsto> dumps E g)\<rparr>)"
    by (simp add: convert_and_save_try_def os_makedirs_def kml2geojson_convert_def
          write_file_ok os_path_exists_def)
  with assms show ?thesis
    by (simp add: convert_and_save_kml_to_geojson_def try_remove_def os_path_exists_def
          os_remove_def)
qed

text \<open>The paths of a KML upload: the allocated path and its sibling.\<close>

lemma kml_paths:
  assumes "lower (suffix (filename f)) = ''.kml''" "uuid4 E (uuid_ctr w) \<noteq> []"
  shows "suffix (filename f) \<noteq> []"
    and "with_suffix (allocated_path E f w) ''.geojson''
           = Path (upload_dir f) (uuid4 E (uuid_ctr w) @ ''.geojson'')"
    and "with_suffix (allocated_path E f w) ''.geojson'' \<noteq> allocated_path E f w"
proof -
  from assms(1) show ne: "suffix (filename f) \<noteq> []" by auto
  with suffix_shape [of "filename f"] obtain e where
    e: "suffix (filename f) = CHR ''.'' # e" "e \<noteq> []" "CHR ''.'' \<notin> set e" by blast
  with assms(2) show ws: "with_suffix (allocated_path E f w) ''.geojson''
           = Path (upload_dir f) (uuid4 E (uuid_ctr w) @ ''.geojson'')"
    by (simp add: allocated_path_def with_suffix_append)
  have "suffix (filename f) \<noteq> ''.geojson''"
  proof
    assume "suffix (filename f) = ''.geojson''"
    with assms(1) show False by (simp add: lower_char_def)
  qed
  with ws show "with_suffix (allocated_path E f w) ''.geojson'' \<noteq> allocated_path E f w"
    by (simp add: allocated_path_def)
qed

lemma save_file_kml_steps:
  assumes k: "lower (suffix (filename f)) = ''.kml''"
      and ne: "content f \<noteq> []"
      and u: "uuid4 E (uuid_ctr w) \<noteq> []"
      and io: "fails E (Makedirs (upload_dir f)) = None"
              "fails E (OpenWrite (allocated_path E f w)) = None"
              "fails E (Write (allocated_path E f w) 0) = None"
  shows "\<exists>w2 r3 w3.
           files w2 (allocated_path E f w) = Some (content f)
         \<and> modifies_only {allocated_path E f w} w w2
         \<and> uuid_ctr w2 = Suc (uuid_ctr w)
         \<and> w2 = w\<lparr>uuid_ctr := Suc (uuid_ctr w),
                    files := (files w)(allocated_path E f w \<mapsto> content f)\<rparr>
         \<and> convert_and_save_kml_to_geojson E (allocated_path E f w)
              (Path (upload_dir f) (uuid4 E (uuid_ctr w) @ ''.geojson'')) w2 = (r3, w3)
         \<and> save_file E f w
              = (case r3 of
                   Inl e \<Rightarrow> Inl (save_file_except (Raised e))
                 | Inr x \<Rightarrow> Inr (Path (upload_dir f) (uuid4 E (uuid_ctr w) @ ''.geojson'')),
                 w3)"
proof -
  let ?p = "allocated_path E f w"
  let ?out = "Path (upload_dir f) (uuid4 E (uuid_ctr w) @ ''.geojson'')"
  let ?w1 = "w\<lparr>uuid_ctr := Suc (uuid_ctr w)\<rparr>"
  let ?w2 = "w\<lparr>uuid_ctr := Suc (uuid_ctr w), files := (files w)(?p \<mapsto> content f)\<rparr>"
  from kml_paths [OF k u] have sx: "suffix (filename f) \<noteq> []"
    and ws: "with_suffix ?p ''.geojson'' = ?out" by simp_all
  from sx io have g: "get_upload_path E f w = (Inr ?p, ?w1)"
    by (simp add: get_upload_path_ok)
  from io have wr: "write_file E ?p (content f) ?w1 = (Inr (), ?w2)"
    by (simp add: write_file_ok)
  obtain r3 w3 where cv: "convert_and_save_kml_to_geojson E ?p ?out ?w2 = (r3, w3)"
    by (cases "convert_and_save_kml_to_geojson E ?p ?out ?w2")
  from g wr cv k ne ws have "save_file E f w
              = (case r3 of
                   Inl e \<Rightarrow> Inl (save_file_except (Raised e))
                 | Inr x \<Rightarrow> Inr ?out, w3)"
    by (cases r3) (simp_all add: save_file_def save_file_try_def Let_def)
  moreover have "files ?w2 ?p = Some (content f)" by simp
  moreover have "modifies_only {?p} w ?w2" by (simp add: modifies_only_def)
  moreover have "uuid_ctr ?w2 = Suc (uuid_ctr w)" by simp
  ultimately show ?thesis using cv by blast
qed

text \<open>
  What \<^verbatim>\<open>save_file\<close> does with a non-empty upload whose extension is \<open>.kml\<close> in any
  case, when the upload has been written to its allocated path (creating the directory,
  opening and writing do not fail), removing that file does not fail, and the sibling
  path is free: after the call the \<open>.kml\<close> file does not exist, however the call ends;
  if the call returns, it returns the sibling path with the extension \<open>.geojson\<close>, and
  that file exists; if the converter raises, the call fails with 400
  \<open>Error processing KML file: ...\<close> and there is no \<open>.geojson\<close> file; and when the
  converter returns a usable result and the output can be written, the call does return,
  with the converted content in the \<open>.geojson\<close> file.
\<close>

lemma save_file_kml:
  assumes "lower (suffix (filename f)) = ''.kml''"
      and "content f \<noteq> []"
      and "uuid4 E (uuid_ctr w) \<noteq> []"
      and "fails E (Makedirs (upload_dir f)) = None"
      and "fails E (OpenWrite (allocated_path E f w)) = None"
      and "fails E (Write (allocated_path E f w) 0) = None"
      and "fails E (Remove (allocated_path E f w)) = None"
      and "files w (Path (upload_dir f) (uuid4 E (uuid_ctr w) @ ''.geojson'')) = None"
  shows "files (snd (save_file E f w)) (allocated_path E f w) = None
       \<and> (\<forall>q. fst (save_file E f w) = Inr q \<longrightarrow>
            q = Path (upload_dir f) (uuid4 E (uuid_ctr w) @ ''.geojson'')
            \<and> files (snd (save_file E f w)) q \<noteq> None)
       \<and> (\<forall>e. convert E (content f) = Inl e \<longrightarrow>
            fst (save_file E f w)
              = Inl (HTTPException 400
                  (''Error processing KML file: ''
                     @ (if cls e = ExpatError then ''Invalid KML structure or encoding''
                        else ''KML to GeoJSON conversion failed'')))
            \<and> files (snd (save_file E f w))
                 (Path (upload_dir f) (uuid4 E (uuid_ctr w) @ ''.geojson'')) = None)
       \<and> (\<forall>res g. convert E (content f) = Inr res \<and> subscript_result res = Inr g
              \<and> truthy g
              \<and> fails E (OpenWrite
                   (Path (upload_dir f) (uuid4 E (uuid_ctr w) @ ''.geojson''))) = None
              \<and> fails E (Write
                   (Path (upload_dir f) (uuid4 E (uuid_ctr w) @ ''.geojson'')) 0) = None
            \<longrightarrow> fst (save_file E f w)
                  = Inr (Path (upload_dir f) (uuid4 E (uuid_ctr w) @ ''.geojson''))
              \<and> files (snd (save_file E f w))
                   (Path (upload_dir f) (uuid4 E (uuid_ctr w) @ ''.geojson''))
                  = Some (dumps E g))"
proof -
  let ?p = "allocated_path E f w"
  let ?out = "Path (upload_dir f) (uuid4 E (uuid_ctr w) @ ''.geojson'')"
  from kml_paths [OF assms(1) assms(3)] have d: "?p \<noteq> ?out" by simp
  from save_file_kml_steps [OF assms(1-6)] obtain w2 r3 w3 where
    c2: "files w2 ?p = Some (content f)" and f2: "modifies_only {?p} w w2"
    and cv: "convert_and_save_kml_to_geojson E ?p ?out w2 = (r3, w3)"
    and s: "save_file E f w
              = (case r3 of Inl e \<Rightarrow> Inl (save_file_except (Raised e)) | Inr x \<Rightarrow> Inr ?out,
                 w3)"
    by blast
  from f2 d assms(8) have o2: "files w2 ?out = None" by (simp add: modifies_only_def)
  have one: "files (snd (save_file E f w)) ?p = None"
    using convert_and_save_removes_input [OF cv assms(7)] s by simp
  have two: "\<forall>q. fst (save_file E f w) = Inr q \<longrightarrow>
               q = ?out \<and> files (snd (save_file E f w)) q \<noteq> None"
  proof (intro allI impI)
    fix q
    assume "fst (save_file E f w) = Inr q"
    with s obtain x where "r3 = Inr x" and q: "q = ?out" by (cases r3) auto
    with cv convert_and_save_returns [of E ?p ?out w2 x w3] d s
    show "q = ?out \<and> files (snd (save_file E f w)) q \<noteq> None" by simp
  qed
  have three: "\<forall>e. convert E (content f) = Inl e \<longrightarrow>
            fst (save_file E f w)
              = Inl (HTTPException 400
                  (''Error processing KML file: ''
                     @ (if cls e = ExpatError then ''Invalid KML structure or encoding''
                        else ''KML to GeoJSON conversion failed'')))
            \<and> files (snd (save_file E f w)) ?out = None"
  proof (intro allI impI)
    fix e
    assume "convert E (content f) = Inl e"
    from convert_and_save_converter_raises [OF c2 this _ d] assms(4) cv o2
    have "r3 = Inl (PyExc ValueError
                     (if cls e = ExpatError then ''Invalid KML structure or encoding''
                      else ''KML to GeoJSON conversion failed''))"
      and "files w3 ?out = None" by auto
    with s show "fst (save_file E f w)
              = Inl (HTTPException 400
                  (''Error processing KML file: ''
                     @ (if cls e = ExpatError then ''Invalid KML structure or encoding''
                        else ''KML to GeoJSON conversion failed'')))
            \<and> files (snd (save_file E f w)) ?out = None"
      by simp
  qed
  have four: "\<forall>res g. convert E (content f) = Inr res \<and> subscript_result res = Inr g
              \<and> truthy g \<and> fails E (OpenWrite ?out) = None
              \<and> fails E (Write ?out 0) = None
            \<longrightarrow> fst (save_file E f w) = Inr ?out
              \<and> files (snd (save_file E f w)) ?out = Some (dumps E g)"
  proof (intro allI impI)
    fix res g
    assume a: "convert E (content f) = Inr res \<and> subscript_result res = Inr g
              \<and> truthy g \<and> fails E (OpenWrite ?out) = None
              \<and> fails E (Write ?out 0) = None"
    from convert_and_save_ok [of w2 ?p "content f" E res g ?out] c2 a d assms(4,7) cv
    have "r3 = Inr ()" and "w3 = w2\<lparr>files := ((files w2)(?out \<mapsto> dumps E g))(?p := None)\<rparr>"
      by simp_all
    with s d show "fst (save_file E f w) = Inr ?out
              \<and> files (snd (save_file E f w)) ?out = Some (dumps E g)"
      by simp
  qed
  from one two three four show ?thesis by blast
qed
lemma save_file_kml_example:
  "lower (suffix (filename upload_kml)) = ''.kml''
   \<and> content upload_kml \<noteq> []
   \<and> uuid4 env_ok (uuid_ctr world0) \<noteq> []
   \<and> fails env_ok (Makedirs (upload_dir upload_kml)) = None
   \<and> fails env_ok (OpenWrite (allocated_path env_ok upload_kml world0)) = None
   \<and> fails env_ok (Write (allocated_path env_ok upload_kml world0) 0) = None
   \<and> fails env_ok (Remove (allocated_path env_ok upload_kml world0)) = None
   \<and> files world0 (Path (upload_dir upload_kml)
                       (uuid4 env_ok (uuid_ctr world0) @ ''.geojson'')) = None
   \<and> convert env_ok (content upload_kml) = Inr (PyList [feature_collection])
   \<and> files (snd (save_file env_ok upload_kml world0))
        (allocated_path env_ok upload_kml world0) = None
   \<and> fst (save_file env_ok upload_kml world0)
       = Inr (Path (upload_dir upload_kml) (uuid4 env_ok (uuid_ctr world0) @ ''.geojson''))
   \<and> files (snd (save_file env_ok upload_kml world0))
        (Path (upload_dir upload_kml) (uuid4 env_ok (uuid_ctr world0) @ ''.geojson''))
       = Some feature_collection_text"
proof -
  have k: "lower (suffix (filename upload_kml)) = ''.kml''"
    by (simp add: upload_kml_def path_simps)
  have ne: "content upload_kml \<noteq> []" by (simp add: upload_kml_def kml_point_def)
  have u: "uuid4 env_ok (uuid_ctr world0) \<noteq> []"
    by (simp add: env_ok_def world0_def uuid_a_def)
  have io: "fails env_ok (Makedirs (upload_dir upload_kml)) = None"
    "fails env_ok (OpenWrite (allocated_path env_ok upload_kml world0)) = None"
    "fails env_ok (Write (allocated_path env_ok upload_kml world0) 0) = None"
    "fails env_ok (Remove (allocated_path env_ok upload_kml world0)) = None"
    by (simp_all add: env_ok_def)
  have fr: "files world0 (Path (upload_dir upload_kml)
                       (uuid4 env_ok (uuid_ctr world0) @ ''.geojson'')) = None"
    by (simp add: world0_def)
  have cv: "convert env_ok (content upload_kml) = Inr (PyList [feature_collection])"
    by (simp add: env_ok_def upload_kml_def)
  have sub: "subscript_result (PyList [feature_collection]) = Inr feature_collection"
    by simp
  have tr: "truthy feature_collection" by (simp add: feature_collection_def)
  have ow: "fails env_ok (OpenWrite (Path (upload_dir upload_kml)
                       (uuid4 env_ok (uuid_ctr world0) @ ''.geojson''))) = None"
    "fails env_ok (Write (Path (upload_dir upload_kml)
                       (uuid4 env_ok (uuid_ctr world0) @ ''.geojson'')) 0) = None"
    by (simp_all add: env_ok_def)
  have dm: "dumps env_ok feature_collection = feature_collection_text"
    by (simp add: env_ok_def)
  from save_file_kml [OF k ne u io fr] cv sub tr ow dm
  have "files (snd (save_file env_ok upload_kml world0))
          (allocated_path env_ok upload_kml world0) = None
      \<and> fst (save_file env_ok upload_kml world0)
          = Inr (Path (upload_dir upload_kml)
                   (uuid4 env_ok (uuid_ctr world0) @ ''.geojson''))
      \<and> files (snd (save_file env_ok upload_kml world0))
          (Path (upload_dir upload_kml) (uuid4 env_ok (uuid_ctr world0) @ ''.geojson''))
          = Some feature_collection_text"
    by (metis (no_types, lifting))
  with k ne u io fr cv show ?thesis by simp
qed

text \<open>
  C2. The claim: after every save of a \<open>.kml\<close> upload the \<open>.kml\<close> file is gone, a
  success returns the sibling \<open>.geojson\<close> path, and a failed conversion raises a 400
  and leaves no \<open>.geojson\<close> output. The first two parts hold (\<open>save_file_kml\<close>), and
  so does the third when the converter raises. But neither
  \<^verbatim>\<open>convert_and_save_kml_to_geojson\<close> nor \<^verbatim>\<open>save_file\<close> removes an output that has been
  created: here the disk is full when the converted output is written, the conversion
  step fails after it has opened the output file, \<^verbatim>\<open>save_file\<close> answers with the 500
  of its \<^verbatim>\<open>OSError\<close> handler, the \<open>.kml\<close> file is removed, no removal fails, and the
  \<open>.geojson\<close> artifact stays on disk.
\<close>

theorem save_file_orphaned_geojson:
  "lower (suffix (filename upload_kml)) = ''.kml''
   \<and> convert env_disk_full_save (content upload_kml) = Inr (PyList [feature_collection])
   \<and> fails env_disk_full_save (Remove saved_kml_a) = None
   \<and> fails env_disk_full_save (Remove saved_out_a) = None
   \<and> files world0 saved_out_a = None
   \<and> fst (save_file env_disk_full_save upload_kml world0)
       = Inl (HTTPException 500
           ''Could not save file on server: [Errno 28] No space left on device'')
   \<and> files (snd (save_file env_disk_full_save upload_kml world0)) saved_kml_a = None
   \<and> files (snd (save_file env_disk_full_save upload_kml world0)) saved_out_a = Some []"
  by (simp add: path_simps storage_simps handler_simps example_simps Let_def)

text \<open>
  C9. The conversion depends on the extension of the file name only. For every upload
  of an allowed MIME type that is not a geo type (so it classifies as an image) and
  whose file name has the extension \<open>.kml\<close> in any case, when the converter returns a
  usable result, no storage or database call fails, the institution exists and has no
  image file yet, and the new name is not taken: the route converts the content, stores
  it as \<open>.geojson\<close> in the image directory (and leaves no \<open>.kml\<close> file), and creates
  the record in the table of image files, not in the table of geo files.
\<close>

theorem upload_kml_with_image_mime:
  assumes "content_type f \<in> ALLOWED_MIME_TYPES"
      and "content_type f \<notin> GEO_MIME_TYPES"
      and "lower (suffix (filename f)) = ''.kml''"
      and "content f \<noteq> []"
      and "uuid4 E (uuid_ctr w) \<noteq> []"
      and "convert E (content f) = Inr res"
      and "subscript_result res = Inr g"
      and "truthy g"
      and "\<forall>op. fails E op = None"
      and "i \<in> set (institutions w)"
      and "i \<notin> institution_id ` set (imagefiles w)"
      and "uuid4 E (uuid_ctr w) @ ''.geojson'' \<notin> row_name ` set (imagefiles w)"
  shows "\<exists>row w'. upload_file E [f] i w = (Inr ([], [row]), w')
           \<and> row_path row = Path IMAGE_DIR (uuid4 E (uuid_ctr w) @ ''.geojson'')
           \<and> row_name row = uuid4 E (uuid_ctr w) @ ''.geojson''
           \<and> row_content_type row = content_type f
           \<and> institution_id row = i
           \<and> imagefiles w' = imagefiles w @ [row]
           \<and> geofiles w' = geofiles w
           \<and> files w' (row_path row) = Some (dumps E g)
           \<and> files w' (Path IMAGE_DIR (uuid4 E (uuid_ctr w) @ suffix (filename f))) = None"
proof -
  let ?u = "uuid4 E (uuid_ctr w)"
  let ?p = "allocated_path E f w"
  let ?out = "Path (upload_dir f) (?u @ ''.geojson'')"
  from assms(2) have dir: "upload_dir f = IMAGE_DIR" by (simp add: upload_dir_def)
  from kml_paths [OF assms(3) assms(5)] have d: "?p \<noteq> ?out" by simp
  from assms(9) have io: "fails E (Makedirs (upload_dir f)) = None"
    "fails E (OpenWrite ?p) = None" "fails E (Write ?p 0) = None"
    "fails E (Remove ?p) = None" "fails E (OpenWrite ?out) = None"
    "fails E (Write ?out 0) = None" "fails E DbCommit = None"
    by simp_all
  from save_file_kml_steps [OF assms(3,4,5) io(1,2,3)] obtain w2 r3 w3 where
    c2: "files w2 ?p = Some (content f)"
    and w2: "w2 = w\<lparr>uuid_ctr := Suc (uuid_ctr w), files := (files w)(?p \<mapsto> content f)\<rparr>"
    and cv: "convert_and_save_kml_to_geojson E ?p ?out w2 = (r3, w3)"
    and s: "save_file E f w
              = (case r3 of Inl e \<Rightarrow> Inl (save_file_except (Raised e)) | Inr x \<Rightarrow> Inr ?out,
                 w3)"
    by blast
  from convert_and_save_ok [OF c2 assms(6,7,8) d] io cv
  have r3: "r3 = Inr ()"
    and w3: "w3 = w2\<lparr>files := ((files w2)(?out \<mapsto> dumps E g))(?p := None)\<rparr>"
    by simp_all
  from s r3 have sv: "save_file E f w = (Inr ?out, w3)" by simp
  from w3 w2 d have fo: "files w3 ?out = Some (dumps E g)" and fp: "files w3 ?p = None"
    and db: "geofiles w3 = geofiles w" "imagefiles w3 = imagefiles w"
    "institutions w3 = institutions w"
    by simp_all
  let ?row = "\<lparr>row_name = ?u @ ''.geojson'',
               row_content_type = content_type f,
               row_path = ?out,
               institution_id = i,
               row_size = length (dumps E g),
               row_url = ''localhost:8000/api/v1/files/image/'' @ ?u @ ''.geojson''\<rparr>"
  from sv fo db assms(2,10,12) io(7)
  have cf: "create_file E f i w = (Inr ?row, w3\<lparr>imagefiles := imagefiles w3 @ [?row]\<rparr>)"
    by (simp add: create_file_def getsize_def db_add_commit_def Let_def)
  from assms(1,2,11) cf
  have "upload_file E [f] i w = (Inr ([], [?row]), w3\<lparr>imagefiles := imagefiles w3 @ [?row]\<rparr>)"
    by (simp add: upload_file_def file_exists_iff Let_def)
  with fo fp db dir show ?thesis by (simp add: allocated_path_def)
qed

theorem upload_kml_with_image_mime_witness:
  "content_type upload_kml_as_image \<in> ALLOWED_MIME_TYPES
   \<and> content_type upload_kml_as_image \<notin> GEO_MIME_TYPES
   \<and> suffix (filename upload_kml_as_image) = ''.KML''
   \<and> lower (suffix (filename upload_kml_as_image)) = ''.kml''
   \<and> content upload_kml_as_image \<noteq> []
   \<and> convert env_ok (content upload_kml_as_image) = Inr (PyList [feature_collection])
   \<and> subscript_result (PyList [feature_collection]) = Inr feature_collection
   \<and> truthy feature_collection
   \<and> (\<forall>op. fails env_ok op = None)
   \<and> ''inst-1'' \<in> set (institutions world0)
   \<and> (\<exists>row w'. upload_file env_ok [upload_kml_as_image] ''inst-1'' world0
                   = (Inr ([], [row]), w')
         \<and> row_path row
             = Path ''app/static/images'' ''0f8fad5b-d9cb-469f-a165-70867728950e.geojson''
         \<and> imagefiles w' = [row] \<and> geofiles w' = []
         \<and> files w' (row_path row) = Some feature_collection_text
         \<and> files w' (Path ''app/static/images''
                        ''0f8fad5b-d9cb-469f-a165-70867728950e.KML'') = None)"
proof -
  have al: "content_type upload_kml_as_image \<in> ALLOWED_MIME_TYPES"
    by (simp add: upload_kml_as_image_def ALLOWED_MIME_TYPES_def)
  have ng: "content_type upload_kml_as_image \<notin> GEO_MIME_TYPES"
    by (simp add: upload_kml_as_image_def GEO_MIME_TYPES_def)
  have sx: "suffix (filename upload_kml_as_image) = ''.KML''"
    by (simp add: upload_kml_as_image_def path_simps)
  have k: "lower (suffix (filename upload_kml_as_image)) = ''.kml''"
    by (simp add: sx lower_char_def)
  have ne: "content upload_kml_as_image \<noteq> []"
    by (simp add: upload_kml_as_image_def kml_point_def)
  have u: "uuid4 env_ok (uuid_ctr world0) \<noteq> []"
    and uu: "uuid4 env_ok (uuid_ctr world0) = ''0f8fad5b-d9cb-469f-a165-70867728950e''"
    by (simp_all add: env_ok_def world0_def uuid_a_def)
  have cv: "convert env_ok (content upload_kml_as_image) = Inr (PyList [feature_collection])"
    by (simp add: env_ok_def upload_kml_as_image_def)
  have sub: "subscript_result (PyList [feature_collection]) = Inr feature_collection"
    by simp
  have tr: "truthy feature_collection" by (simp add: feature_collection_def)
  have nf: "\<forall>op. fails env_ok op = None" by (simp add: env_ok_def)
  have inst: "''inst-1'' \<in> set (institutions world0)" by (simp add: world0_def)
  have noimg: "''inst-1'' \<notin> institution_id ` set (imagefiles world0)"
    and free: "uuid4 env_ok (uuid_ctr world0) @ ''.geojson''
                 \<notin> row_name ` set (imagefiles world0)"
    and tb: "imagefiles world0 = []" "geofiles world0 = []"
    by (simp_all add: world0_def)
  have dm: "dumps env_ok feature_collection = feature_collection_text"
    by (simp add: env_ok_def)
  from upload_kml_with_image_mime [OF al ng k ne u cv sub tr nf inst noimg free]
  obtain row w' where
    "upload_file env_ok [upload_kml_as_image] ''inst-1'' world0 = (Inr ([], [row]), w')"
    "row_path row = Path IMAGE_DIR (uuid4 env_ok (uuid_ctr world0) @ ''.geojson'')"
    "imagefiles w' = imagefiles world0 @ [row]" "geofiles w' = geofiles world0"
    "files w' (row_path row) = Some (dumps env_ok feature_collection)"
    "files w' (Path IMAGE_DIR (uuid4 env_ok (uuid_ctr world0)
                 @ suffix (filename upload_kml_as_image))) = None"
    by blast
  then have "\<exists>row w'. upload_file env_ok [upload_kml_as_image] ''inst-1'' world0
                   = (Inr ([], [row]), w')
         \<and> row_path row
             = Path ''app/static/images'' ''0f8fad5b-d9cb-469f-a165-70867728950e.geojson''
         \<and> imagefiles w' = [row] \<and> geofiles w' = []
         \<and> files w' (row_path row) = Some feature_collection_text
         \<and> files w' (Path ''app/static/images''
                        ''0f8fad5b-d9cb-469f-a165-70867728950e.KML'') = None"
    using uu sx tb dm by (simp add: IMAGE_DIR_def)
  with al ng sx k ne cv sub tr nf inst show ?thesis by blast
qed

section \<open>An empty conversion result (C3)\<close>





section \<open>Overwriting a stored file (C1)\<close>

lemma write_chunks_frame:
  "write_chunks E p rest w = (r, w') \<Longrightarrow> modifies_only {p} w w'"
proof (induction E p rest w arbitrary: r w' rule: write_chunks.induct)
  case (1 E p rest w)
  note unfold = write_chunks.simps [of E p rest w]
  show ?case
  proof (cases "take CHUNK rest = []")
    case True
    with "1.prems" unfold show ?thesis by (simp add: modifies_only_refl)
  next
    case False
    obtain r1 w1 where fw: "file_write E p (take CHUNK rest) w = (r1, w1)"
      by (cases "file_write E p (take CHUNK rest) w")
    from file_write_frame [OF fw] have f1: "modifies_only {p} w w1" .
    show ?thesis
    proof (cases r1)
      case (Inl e)
      with "1.prems" unfold False fw f1 show ?thesis by simp
    next
      case (Inr u)
      with "1.prems" unfold False fw have "write_chunks E p (drop CHUNK rest) w1 = (r, w')"
        by simp
      from "1.IH" [OF False fw [symmetric] Inr this] f1 show ?thesis
        using modifies_only_trans [of "{p}" w w1 "{p}" w'] by simp
    qed
  qed
qed

text \<open>Without a write fault the loop appends all the bytes of the upload.\<close>

lemma write_chunks_ok:
  "\<forall>k. fails E (Write p k) = None \<Longrightarrow> files w p = Some old \<Longrightarrow>
   write_chunks E p rest w = (Inr (), w\<lparr>files := (files w)(p \<mapsto> old @ rest)\<rparr>)"
proof (induction E p rest w arbitrary: old rule: write_chunks.induct)
  case (1 E p rest w)
  note unfold = write_chunks.simps [of E p rest w]
  show ?case
  proof (cases "take CHUNK rest = []")
    case True
    then have "rest = []" by (simp add: CHUNK_def)
    with "1.prems" unfold show ?thesis by (simp add: fun_upd_idem)
  next
    case False
    let ?w1 = "w\<lparr>files := (files w)(p \<mapsto> old @ take CHUNK rest)\<rparr>"
    from "1.prems" have fw: "file_write E p (take CHUNK rest) w = (Inr (), ?w1)"
      by (simp add: file_write_def)
    have "files ?w1 p = Some (old @ take CHUNK rest)" by simp
    from "1.IH" [OF False fw [symmetric] _ "1.prems"(1) this]
    have ih: "write_chunks E p (drop CHUNK rest) ?w1
            = (Inr (), w\<lparr>files := (files w)(p \<mapsto> old @ rest)\<rparr>)"
      by (simp add: fun_upd_def cong: if_cong)
    from unfold False
    have "write_chunks E p rest w
            = (case file_write E p (take CHUNK rest) w of
                 (Inl e, w1) \<Rightarrow> (Inl e, w1)
               | (Inr u, w1) \<Rightarrow> write_chunks E p (drop CHUNK rest) w1)"
      by (simp only: if_False)
    also have "\<dots> = write_chunks E p (drop CHUNK rest) ?w1"
      by (simp only: fw prod.case sum.case)
    finally show ?thesis using ih by (simp only:)
  qed
qed

text \<open>The two temporary paths of an overwrite are different files.\<close>

lemma temp_paths:
  "with_suffix (Path d (''.'' @ u @ ''.tmp'')) ''.geojson'' = Path d (''.'' @ u @ ''.geojson'')"
  "Path d (''.'' @ u @ ''.geojson'') \<noteq> Path d (''.'' @ u @ ''.tmp'')"
  using with_suffix_append [of "''.'' @ u" "''tmp''" d "''.geojson''"] by simp_all

text \<open>
  What the preparation touches and what it hands on: an exception comes with the
  \<open>.tmp\<close> path, a normal result is the \<open>.tmp\<close> path or its \<open>.geojson\<close> sibling.
\<close>

lemma overwrite_prepare_result:
  assumes "overwrite_prepare E f t w = (r, w')"
  shows "modifies_only {Path (parent t) (''.'' @ uuid4 E (uuid_ctr w) @ ''.tmp''),
                        Path (parent t) (''.'' @ uuid4 E (uuid_ctr w) @ ''.geojson'')} w w'
       \<and> (\<forall>e tp. r = Inl (e, tp)
             \<longrightarrow> tp = Path (parent t) (''.'' @ uuid4 E (uuid_ctr w) @ ''.tmp''))
       \<and> (\<forall>tp. r = Inr tp
             \<longrightarrow> (tp = Path (parent t) (''.'' @ uuid4 E (uuid_ctr w) @ ''.tmp'')
                  \<or> tp = Path (parent t) (''.'' @ uuid4 E (uuid_ctr w) @ ''.geojson''))
                 \<and> (fails E (Remove (Path (parent t) (''.'' @ uuid4 E (uuid_ctr w) @ ''.tmp'')))
                       = None
                     \<and> tp \<noteq> Path (parent t) (''.'' @ uuid4 E (uuid_ctr w) @ ''.tmp'')
                    \<longrightarrow> files w' (Path (parent t) (''.'' @ uuid4 E (uuid_ctr w) @ ''.tmp''))
                          = None))
       \<and> (\<forall>e tp. r = Inl (e, tp) \<and> lower (suffix (filename f)) \<noteq> ''.kml''
             \<longrightarrow> files w' (Path (parent t) (''.'' @ uuid4 E (uuid_ctr w) @ ''.geojson''))
                   = files w (Path (parent t) (''.'' @ uuid4 E (uuid_ctr w) @ ''.geojson'')))"
proof -
  let ?tmp = "Path (parent t) (''.'' @ uuid4 E (uuid_ctr w) @ ''.tmp'')"
  let ?out = "Path (parent t) (''.'' @ uuid4 E (uuid_ctr w) @ ''.geojson'')"
  let ?S = "{?tmp, ?out}"
  let ?w0 = "w\<lparr>uuid_ctr := Suc (uuid_ctr w)\<rparr>"
  have ws: "with_suffix ?tmp ''.geojson'' = ?out" and ne: "?out \<noteq> ?tmp"
    by (rule temp_paths)+
  have f0: "modifies_only {} w ?w0" by (simp add: modifies_only_def)
  obtain r1 w1 where ow: "open_write E ?tmp ?w0 = (r1, w1)"
    by (cases "open_write E ?tmp ?w0")
  from open_write_frame [OF ow] f0 have f1: "modifies_only {?tmp} w w1"
    using modifies_only_trans [of "{}" w ?w0 "{?tmp}" w1] by simp
  show ?thesis
  proof (cases r1)
    case (Inl e)
    with assms ow have "r = Inl (e, ?tmp)" "w' = w1"
      by (simp_all add: overwrite_prepare_def next_uuid_def Let_def)
    with f1 ne show ?thesis by (auto simp: modifies_only_def)
  next
    case u1: (Inr u1)
    obtain r2 w2 where wc: "write_chunks E ?tmp (content f) w1 = (r2, w2)"
      by (cases "write_chunks E ?tmp (content f) w1")
    from write_chunks_frame [OF wc] f1 have f2: "modifies_only {?tmp} w w2"
      using modifies_only_trans [of "{?tmp}" w w1 "{?tmp}" w2] by simp
    show ?thesis
    proof (cases r2)
      case (Inl e)
      with assms ow u1 wc have "r = Inl (e, ?tmp)" "w' = w2"
        by (simp_all add: overwrite_prepare_def next_uuid_def Let_def)
      with f2 ne show ?thesis by (auto simp: modifies_only_def)
    next
      case u2: (Inr u2)
      show ?thesis
      proof (cases "lower (suffix (filename f)) = ''.kml''")
        case False
        with assms ow u1 wc u2 have "r = Inr ?tmp" "w' = w2"
          by (simp_all add: overwrite_prepare_def next_uuid_def Let_def)
        with f2 show ?thesis by (auto simp: modifies_only_def)
      next
        case True
        obtain r3 w3 where cv: "convert_and_save_kml_to_geojson E ?tmp ?out w2 = (r3, w3)"
          by (cases "convert_and_save_kml_to_geojson E ?tmp ?out w2")
        have f3: "modifies_only ?S w w3"
          using modifies_only_mono
            [OF modifies_only_trans [OF f2 convert_and_save_frame [OF cv]], of ?S]
          by auto
        have gone: "fails E (Remove ?tmp) = None \<Longrightarrow> files w3 ?tmp = None"
          using convert_and_save_removes_input [OF cv] by simp
        from assms ow u1 wc u2 True cv ws
        have "(\<exists>e. r3 = Inl e \<and> r = Inl (e, ?tmp)) \<or> (\<exists>x. r3 = Inr x \<and> r = Inr ?out)"
          and "w' = w3"
          by (cases r3; simp add: overwrite_prepare_def next_uuid_def Let_def)+
        with f3 gone True show ?thesis by auto
      qed
    qed
  qed
qed

lemma shutil_move_fails:
  "shutil_move E a b w = (Inl e, w') \<Longrightarrow> w' = w"
  by (auto simp: shutil_move_def split: option.splits)

lemma shutil_move_returns:
  "shutil_move E a b w = (Inr u, w') \<Longrightarrow>
     \<exists>c. files w a = Some c \<and> w' = w\<lparr>files := ((files w)(a := None))(b \<mapsto> c)\<rparr>"
  by (auto simp: shutil_move_def split: option.splits)

text \<open>
  Every failure of \<^verbatim>\<open>overwrite_file\<close> is the 500 of the handler, leaves the target and
  the database as they were, and leaves no \<open>.tmp\<close> file when removing it does not fail.
\<close>

lemma overwrite_file_failure:
  assumes "overwrite_file E f t w = (Inl e, w')"
      and "t \<noteq> Path (parent t) (''.'' @ uuid4 E (uuid_ctr w) @ ''.tmp'')"
      and "t \<noteq> Path (parent t) (''.'' @ uuid4 E (uuid_ctr w) @ ''.geojson'')"
  shows "files w' t = files w t
       \<and> (\<exists>m. e = HTTPException 500 (''Failed to overwrite file: '' @ m))
       \<and> geofiles w' = geofiles w \<and> imagefiles w' = imagefiles w
       \<and> institutions w' = institutions w
       \<and> (fails E (Remove (Path (parent t) (''.'' @ uuid4 E (uuid_ctr w) @ ''.tmp''))) = None
            \<longrightarrow> files w' (Path (parent t) (''.'' @ uuid4 E (uuid_ctr w) @ ''.tmp'')) = None)"
proof -
  let ?tmp = "Path (parent t) (''.'' @ uuid4 E (uuid_ctr w) @ ''.tmp'')"
  let ?out = "Path (parent t) (''.'' @ uuid4 E (uuid_ctr w) @ ''.geojson'')"
  have ne: "?out \<noteq> ?tmp" by (rule temp_paths)
  obtain r w1 where p: "overwrite_prepare E f t w = (r, w1)"
    by (cases "overwrite_prepare E f t w")
  from overwrite_prepare_result [OF p]
  have f1: "modifies_only {?tmp, ?out} w w1"
    and il: "\<forall>e tp. r = Inl (e, tp) \<longrightarrow> tp = ?tmp"
    and ir: "\<forall>tp. r = Inr tp \<longrightarrow> (tp = ?tmp \<or> tp = ?out)
               \<and> (fails E (Remove ?tmp) = None \<and> tp \<noteq> ?tmp \<longrightarrow> files w1 ?tmp = None)"
    by blast+
  have "\<exists>e0 tp. (tp = ?tmp \<or> tp = ?out) \<and> overwrite_try E f t w = (Inl (e0, tp), w1)
           \<and> (fails E (Remove ?tmp) = None \<and> tp \<noteq> ?tmp \<longrightarrow> files w1 ?tmp = None)"
  proof (cases r)
    case (Inl ep)
    obtain e0 tp where "ep = (e0, tp)" by (cases ep)
    with Inl il p show ?thesis by (auto simp: overwrite_try_def)
  next
    case (Inr tp)
    obtain r2 w2 where m: "shutil_move E tp t w1 = (r2, w2)"
      by (cases "shutil_move E tp t w1")
    from assms(1) p Inr m obtain e2 where r2: "r2 = Inl e2"
      by (cases r2) (auto simp: overwrite_file_def overwrite_try_def)
    with m shutil_move_fails have "w2 = w1" by blast
    with p Inr m r2 ir show ?thesis by (auto simp: overwrite_try_def)
  qed
  then obtain e0 tp where tp: "tp = ?tmp \<or> tp = ?out"
    and t: "overwrite_try E f t w = (Inl (e0, tp), w1)"
    and gone: "fails E (Remove ?tmp) = None \<and> tp \<noteq> ?tmp \<longrightarrow> files w1 ?tmp = None"
    by blast
  from assms(1) t have e: "e = HTTPException 500 (''Failed to overwrite file: '' @ msg e0)"
    and w': "w' = try_remove E tp w1"
    by (simp_all add: overwrite_file_def)
  from try_remove_frame [of tp w1 E] w' have f2: "modifies_only {tp} w1 w'" by simp
  from f1 f2 tp assms(2,3) have "files w' t = files w t"
    by (auto simp: modifies_only_def)
  moreover from f1 f2 have "geofiles w' = geofiles w \<and> imagefiles w' = imagefiles w
       \<and> institutions w' = institutions w"
    by (simp add: modifies_only_def)
  moreover have "fails E (Remove ?tmp) = None \<longrightarrow> files w' ?tmp = None"
  proof
    assume rm: "fails E (Remove ?tmp) = None"
    show "files w' ?tmp = None"
    proof (cases "tp = ?tmp")
      case True
      with w' rm show ?thesis by (simp add: try_remove_gone)
    next
      case False
      with gone rm have "files w1 ?tmp = None" by simp
      with f2 False show ?thesis by (simp add: modifies_only_def)
    qed
  qed
  ultimately show ?thesis using e by blast
qed

text \<open>
  A normal return of \<^verbatim>\<open>overwrite_file\<close> changes the target in one step only: the
  preparation leaves it alone, and the move puts the whole prepared file in its place.
\<close>

lemma overwrite_file_returns:
  assumes "overwrite_file E f t w = (Inr u, w')"
      and "t \<noteq> Path (parent t) (''.'' @ uuid4 E (uuid_ctr w) @ ''.tmp'')"
      and "t \<noteq> Path (parent t) (''.'' @ uuid4 E (uuid_ctr w) @ ''.geojson'')"
  shows "\<exists>tp w1 c. overwrite_prepare E f t w = (Inr tp, w1)
           \<and> files w1 t = files w t
           \<and> files w1 tp = Some c
           \<and> w' = w1\<lparr>files := ((files w1)(tp := None))(t \<mapsto> c)\<rparr>"
proof -
  obtain r w1 where p: "overwrite_prepare E f t w = (r, w1)"
    by (cases "overwrite_prepare E f t w")
  from overwrite_prepare_result [OF p] assms(2,3) have f1: "files w1 t = files w t"
    by (simp add: modifies_only_def)
  from assms(1) p obtain tp where r: "r = Inr tp"
    by (cases r) (auto simp: overwrite_file_def overwrite_try_def)
  obtain r2 w2 where m: "shutil_move E tp t w1 = (r2, w2)"
    by (cases "shutil_move E tp t w1")
  from assms(1) p r m have "r2 = Inr ()" "w' = w2"
    by (cases r2; simp add: overwrite_file_def overwrite_try_def)+
  with m shutil_move_returns [of E tp t w1 "()" w2] p r f1 show ?thesis by auto
qed

text \<open>
  C1. The claim: every call of \<^verbatim>\<open>overwrite_file\<close> that fails before the move is
  complete leaves the target with its content, removes the temporary artifact and raises
  the 500 of the handler. The code keeps the target and raises the 500 in every failure
  (\<open>overwrite_file_failure\<close>), but its handler removes only the file that
  \<^verbatim>\<open>temp_file_path\<close> names, and that is still the \<open>.tmp\<close> file while the conversion
  runs. Here a KML upload overwrites a stored file on a disk that is full when the
  converted output is written: the output file has been created, the write raises, the
  \<^verbatim>\<open>finally\<close> clause of the conversion removes the \<open>.tmp\<close> file, no removal fails,
  and the \<open>.geojson\<close> artifact stays on disk.
\<close>

theorem overwrite_file_orphaned_geojson:
  "fst (overwrite_file env_disk_full upload_kml target_geo world_geo)
     = Inl (HTTPException 500
         ''Failed to overwrite file: [Errno 28] No space left on device'')
   \<and> files (snd (overwrite_file env_disk_full upload_kml target_geo world_geo)) target_geo
       = files world_geo target_geo
   \<and> fails env_disk_full (Remove temp_a) = None
   \<and> fails env_disk_full (Remove temp_out_a) = None
   \<and> files world_geo temp_out_a = None
   \<and> files (snd (overwrite_file env_disk_full upload_kml target_geo world_geo)) temp_a
       = None
   \<and> files (snd (overwrite_file env_disk_full upload_kml target_geo world_geo)) temp_out_a
       = Some []"
  by (simp add: path_simps storage_simps handler_simps example_simps write_chunks.simps
        CHUNK_def Let_def)

section \<open>One file of each kind per institution (C5)\<close>

lemma delete_file_frame:
  "delete_file E p w = (r, w') \<Longrightarrow> modifies_only {p} w w'"
  by (auto simp: delete_file_def modifies_only_refl
        split: if_splits prod.splits sum.splits dest: os_remove_frame)

lemma delete_institution_one_per_institution:
  assumes "one_per_institution (geofiles w)" "one_per_institution (imagefiles w)"
  shows "one_per_institution (geofiles (snd (delete_institution E i w)))
       \<and> one_per_institution (imagefiles (snd (delete_institution E i w)))"
proof -
  have same: "\<And>S w'. modifies_only S w w' \<Longrightarrow>
      one_per_institution (geofiles w') \<and> one_per_institution (imagefiles w')"
    using assms by (simp add: modifies_only_def)
  have del: "\<And>S w' r w''. modifies_only S w w' \<Longrightarrow> db_delete_institution E i w' = (r, w'')
      \<Longrightarrow> one_per_institution (geofiles w'') \<and> one_per_institution (imagefiles w'')"
    using assms
    by (auto simp: db_delete_institution_def modifies_only_def one_per_institution_def
          distinct_map_filter split: option.splits)
  show ?thesis
  proof (cases "i \<in> set (institutions w)")
    case False
    with assms show ?thesis by (simp add: delete_institution_def get_institution_by_id_def)
  next
    case True
    show ?thesis
    proof (cases "geo_file w i")
      case None
      with True assms show ?thesis
        by (simp add: delete_institution_def get_institution_by_id_def)
    next
      case (Some g)
      obtain r1 w1 where d1: "delete_file E (row_path g) w = (r1, w1)"
        by (cases "delete_file E (row_path g) w")
      from delete_file_frame [OF d1] have f1: "modifies_only {row_path g} w w1" .
      show ?thesis
      proof (cases r1)
        case (Inl e)
        with True Some d1 same [OF f1] show ?thesis
          by (simp add: delete_institution_def get_institution_by_id_def)
      next
        case u1: (Inr u1)
        show ?thesis
        proof (cases "image_file w1 i")
          case None
          with True Some d1 u1 same [OF f1] show ?thesis
            by (simp add: delete_institution_def get_institution_by_id_def)
        next
          case im: (Some im)
          obtain r2 w2 where d2: "delete_file E (row_path im) w1 = (r2, w2)"
            by (cases "delete_file E (row_path im) w1")
          from modifies_only_trans [OF f1 delete_file_frame [OF d2]]
          have f2: "modifies_only ({row_path g} \<union> {row_path im}) w w2" .
          show ?thesis
          proof (cases r2)
            case (Inl e)
            with True Some d1 u1 im d2 same [OF f2] show ?thesis
              by (simp add: delete_institution_def get_institution_by_id_def)
          next
            case u2: (Inr u2)
            obtain r3 w3 where d3: "db_delete_institution E i w2 = (r3, w3)"
              by (cases "db_delete_institution E i w2")
            with True Some d1 u1 im d2 u2 del [OF f2 d3] show ?thesis
              by (simp add: delete_institution_def get_institution_by_id_def)
          qed
        qed
      qed
    qed
  qed
qed

lemma overwrite_file_tables:
  "geofiles (snd (overwrite_file E f t w)) = geofiles w
   \<and> imagefiles (snd (overwrite_file E f t w)) = imagefiles w
   \<and> institutions (snd (overwrite_file E f t w)) = institutions w"
proof -
  obtain r w1 where p: "overwrite_prepare E f t w = (r, w1)"
    by (cases "overwrite_prepare E f t w")
  from overwrite_prepare_result [OF p]
  have f1: "geofiles w1 = geofiles w \<and> imagefiles w1 = imagefiles w
            \<and> institutions w1 = institutions w"
    by (simp add: modifies_only_def)
  obtain r2 w2 where t: "overwrite_try E f t w = (r2, w2)"
    by (cases "overwrite_try E f t w")
  have f2: "geofiles w2 = geofiles w \<and> imagefiles w2 = imagefiles w
            \<and> institutions w2 = institutions w"
  proof (cases r)
    case (Inl ep)
    with p t f1 show ?thesis by (simp add: overwrite_try_def)
  next
    case (Inr tp)
    obtain r3 w3 where m: "shutil_move E tp t w1 = (r3, w3)"
      by (cases "shutil_move E tp t w1")
    from shutil_move_frame [OF m] f1
    have "geofiles w3 = geofiles w \<and> imagefiles w3 = imagefiles w
            \<and> institutions w3 = institutions w"
      by (simp add: modifies_only_def)
    with p t Inr m show ?thesis by (cases r3) (auto simp: overwrite_try_def)
  qed
  show ?thesis
  proof (cases r2)
    case (Inl ep)
    obtain e tp where "ep = (e, tp)" by (cases ep)
    with Inl t f2 try_remove_frame [of tp w2 E] show ?thesis
      by (simp add: overwrite_file_def modifies_only_def)
  next
    case (Inr u)
    with t f2 show ?thesis by (simp add: overwrite_file_def)
  qed
qed

text \<open>
  C5. If every institution owns at most one geo file and at most one image file, it
  still does after any call of the upload route, whatever the batch and however the call
  ends: the route asks the repository (\<^verbatim>\<open>file_exists\<close>) before it creates a record.
  An upload of a file of an allowed type for an institution that already has a file of
  that kind (geo or image) is rejected with 400 and a detail that says
  \<open>already exists\<close>, and the state (records and files) is what it was. The other
  operations keep the property too: deleting an institution only removes rows, and
  overwriting a file leaves the tables alone.
\<close>

theorem upload_file_one_per_institution:
  assumes "one_per_institution (geofiles w)"
      and "one_per_institution (imagefiles w)"
  shows "one_per_institution (geofiles (snd (upload_file E fs i w)))
       \<and> one_per_institution (imagefiles (snd (upload_file E fs i w)))
       \<and> (\<forall>f rest. content_type f \<in> ALLOWED_MIME_TYPES
             \<and> i \<in> institution_id ` set (if content_type f \<in> GEO_MIME_TYPES
                                          then geofiles w else imagefiles w)
           \<longrightarrow> upload_file E (f # rest) i w
                 = (Inl (HTTPException 400
                      (''File with name '' @ [CHR 0x27] @ filename f @ [CHR 0x27]
                         @ '' already exists for institution.'')), w))
       \<and> (\<forall>j. one_per_institution (geofiles (snd (delete_institution E j w)))
              \<and> one_per_institution (imagefiles (snd (delete_institution E j w))))
       \<and> (\<forall>f t. geofiles (snd (overwrite_file E f t w)) = geofiles w
              \<and> imagefiles (snd (overwrite_file E f t w)) = imagefiles w)"
proof -
  obtain r w' where u: "upload_loop E fs i [] [] w = (r, w')"
    by (cases "upload_loop E fs i [] [] w")
  from upload_loop_one_per_institution [OF assms u] u
  have "one_per_institution (geofiles (snd (upload_file E fs i w)))
      \<and> one_per_institution (imagefiles (snd (upload_file E fs i w)))"
    by (simp add: upload_file_def)
  moreover have "\<forall>f rest. content_type f \<in> ALLOWED_MIME_TYPES
             \<and> i \<in> institution_id ` set (if content_type f \<in> GEO_MIME_TYPES
                                          then geofiles w else imagefiles w)
           \<longrightarrow> upload_file E (f # rest) i w
                 = (Inl (HTTPException 400
                      (''File with name '' @ [CHR 0x27] @ filename f @ [CHR 0x27]
                         @ '' already exists for institution.'')), w)"
    by (simp add: upload_file_def file_exists_iff already_exists_detail_def Let_def)
  moreover have "\<forall>j. one_per_institution (geofiles (snd (delete_institution E j w)))
              \<and> one_per_institution (imagefiles (snd (delete_institution E j w)))"
    using delete_institution_one_per_institution [OF assms] by blast
  moreover have "\<forall>f t. geofiles (snd (overwrite_file E f t w)) = geofiles w
              \<and> imagefiles (snd (overwrite_file E f t w)) = imagefiles w"
    using overwrite_file_tables by blast
  ultimately show ?thesis by blast
qed

theorem upload_file_one_per_institution_witness:
  "one_per_institution (geofiles world_geo)
   \<and> one_per_institution (imagefiles world_geo)
   \<and> content_type upload_geojson \<in> ALLOWED_MIME_TYPES
   \<and> content_type upload_geojson \<in> GEO_MIME_TYPES
   \<and> ''inst-1'' \<in> institution_id ` set (geofiles world_geo)
   \<and> upload_file env_ok [upload_geojson] ''inst-1'' world_geo
       = (Inl (HTTPException 400
            (''File with name '' @ [CHR 0x27] @ ''campus.geojson'' @ [CHR 0x27]
               @ '' already exists for institution.'')), world_geo)
   \<and> geofiles (snd (upload_file env_ok [upload_geojson] ''inst-1'' world_geo)) = [row_geo]"
proof -
  have a: "one_per_institution (geofiles world_geo)"
    by (simp add: one_per_institution_def world_geo_def)
  have b: "one_per_institution (imagefiles world_geo)"
    by (simp add: one_per_institution_def world_geo_def world0_def)
  have c: "content_type upload_geojson \<in> ALLOWED_MIME_TYPES"
    by (simp add: upload_geojson_def ALLOWED_MIME_TYPES_def)
  have d: "content_type upload_geojson \<in> GEO_MIME_TYPES"
    by (simp add: upload_geojson_def GEO_MIME_TYPES_def)
  have e: "''inst-1'' \<in> institution_id ` set (geofiles world_geo)"
    by (simp add: world_geo_def row_geo_def)
  have fn: "filename upload_geojson = ''campus.geojson''" by (simp add: upload_geojson_def)
  have gs: "geofiles world_geo = [row_geo]" by (simp add: world_geo_def)
  from upload_file_one_per_institution [OF a b, of env_ok "[upload_geojson]" "''inst-1''"]
    c d e
  have "upload_file env_ok [upload_geojson] ''inst-1'' world_geo
       = (Inl (HTTPException 400
            (''File with name '' @ [CHR 0x27] @ filename upload_geojson @ [CHR 0x27]
               @ '' already exists for institution.'')), world_geo)"
    by simp
  with a b c d e fn gs show ?thesis by simp
qed

end
